theory Spec2Isabelle
  imports Complex_Main "HOL-Library.Word"
begin

section \<open>parser.h: the parameter store\<close>

text \<open>
  \<^verbatim>\<open>struct parameter { char name[MAX_LINE_SIZE]; char value[MAX_LINE_SIZE]; };\<close>
  \<^verbatim>\<open>struct swift_params { struct parameter data[MAX_NO_OF_PARAMS]; };\<close>
  The two character arrays hold NUL-terminated C strings; they are modelled by the
  string before the terminator.
\<close>

definition MAX_NO_OF_PARAMS :: nat where
  "MAX_NO_OF_PARAMS = 4"

record parameter =
  pname :: string
  pvalue :: string

record swift_params =
  data :: "parameter list"

text \<open>
  The C library's \<^verbatim>\<open>strcmp\<close>: zero exactly for equal strings, otherwise the sign of the
  difference of the first pair of bytes that differ (the end of a string is its
  terminator, the byte 0, which is below every other byte).
\<close>

fun strcmp :: "string \<Rightarrow> string \<Rightarrow> int" where
  "strcmp [] [] = 0"
| "strcmp [] (b # bs) = - 1"
| "strcmp (a # as) [] = 1"
| "strcmp (a # as) (b # bs) =
     (if a = b then strcmp as bs
      else if (of_char a :: nat) < of_char b then - 1 else 1)"

text \<open>
  The C library's \<^verbatim>\<open>atoi\<close>: leading white space is skipped, an optional sign is read,
  then decimal digits up to the first other character. The value is kept as a
  mathematical integer (C leaves the result undefined when it does not fit an int).
\<close>

definition isspace :: "char \<Rightarrow> bool" where
  "isspace c = ((of_char c :: nat) = 32 \<or> (9 \<le> (of_char c :: nat) \<and> (of_char c :: nat) \<le> 13))"

definition isdigit :: "char \<Rightarrow> bool" where
  "isdigit c = (48 \<le> (of_char c :: nat) \<and> (of_char c :: nat) \<le> 57)"

fun atoi_digits :: "int \<Rightarrow> string \<Rightarrow> int" where
  "atoi_digits acc [] = acc"
| "atoi_digits acc (c # cs) =
     (if isdigit c then atoi_digits (10 * acc + (int (of_char c) - 48)) cs else acc)"

definition atoi :: "string \<Rightarrow> int" where
  "atoi s =
     (case dropWhile isspace s of
        [] \<Rightarrow> 0
      | c # cs \<Rightarrow>
          if c = CHR ''-'' then - atoi_digits 0 cs
          else if c = CHR ''+'' then atoi_digits 0 cs
          else atoi_digits 0 (c # cs))"

text \<open>
  \<^verbatim>\<open>getParam\<close>: the loop over \<^verbatim>\<open>i = 0 .. MAX_NO_OF_PARAMS - 1\<close>. The function takes the
  value stored in \<^verbatim>\<open>*retParam\<close> before the call and returns the value stored there
  afterwards. The array has \<^verbatim>\<open>MAX_NO_OF_PARAMS\<close> entries, so the model is used on
  stores with \<open>length (data params) = MAX_NO_OF_PARAMS\<close>.
\<close>

function getParam_loop :: "swift_params \<Rightarrow> string \<Rightarrow> int \<Rightarrow> nat \<Rightarrow> int" where
  "getParam_loop params name retParam i =
     (if i < MAX_NO_OF_PARAMS then
        (if strcmp name (pname (data params ! i)) \<noteq> 0
         then atoi (pvalue (data params ! i))
         else getParam_loop params name retParam (i + 1))
      else retParam)"
  by pat_completeness auto
termination
  by (relation "measure (\<lambda>(params, name, retParam, i). MAX_NO_OF_PARAMS - i)") auto

declare getParam_loop.simps [simp del]

definition getParam :: "swift_params \<Rightarrow> string \<Rightarrow> int \<Rightarrow> int" where
  "getParam params name retParam = getParam_loop params name retParam 0"

section \<open>Machine integers\<close>

text \<open>
  \<^verbatim>\<open>int\<close> is 32 bits wide and \<^verbatim>\<open>long long\<close> is 64 bits wide, both in two's complement;
  \<^verbatim>\<open>size_t\<close> is an unsigned 64-bit integer. The result of a signed operation is the
  mathematical result reduced into the range of the type (the wrap-around of the
  machine; C itself leaves a signed overflow undefined). A value converted to an
  unsigned type is reduced modulo \<open>2\<^sup>6\<^sup>4\<close>.
\<close>

definition wrap_signed :: "nat \<Rightarrow> int \<Rightarrow> int" where
  "wrap_signed w v = (v + 2 ^ (w - 1)) mod 2 ^ w - 2 ^ (w - 1)"

definition c_int :: "int \<Rightarrow> int" where
  "c_int v = wrap_signed 32 v"

definition c_long_long :: "int \<Rightarrow> int" where
  "c_long_long v = wrap_signed 64 v"

definition c_size_t :: "int \<Rightarrow> nat" where
  "c_size_t v = nat (v mod 2 ^ 64)"

text \<open>
  C's integer division truncates towards zero.
\<close>

definition c_div :: "int \<Rightarrow> int \<Rightarrow> int" where
  "c_div a b = (if (a < 0) = (b < 0) then \<bar>a\<bar> div \<bar>b\<bar> else - (\<bar>a\<bar> div \<bar>b\<bar>))"

section \<open>serial\_io.c: dividing the particles among the ranks\<close>

text \<open>
  \<^verbatim>\<open>offset[ptype] = mpi_rank * N_total[ptype] / mpi_size;\<close>
  \<^verbatim>\<open>N[ptype] = (mpi_rank + 1) * N_total[ptype] / mpi_size - offset[ptype];\<close>
  \<^verbatim>\<open>mpi_rank\<close> and \<^verbatim>\<open>mpi_size\<close> are \<^verbatim>\<open>int\<close>, \<^verbatim>\<open>N_total\<close> and \<^verbatim>\<open>offset\<close> are \<^verbatim>\<open>long long\<close> and
  \<^verbatim>\<open>N\<close> is \<^verbatim>\<open>size_t\<close>: the sum \<^verbatim>\<open>mpi_rank + 1\<close> is an \<^verbatim>\<open>int\<close>, the products, the quotients and
  the difference are \<^verbatim>\<open>long long\<close>, and the difference is converted to \<^verbatim>\<open>size_t\<close> when it
  is stored.
\<close>

definition ic_offset :: "int \<Rightarrow> int \<Rightarrow> int \<Rightarrow> int" where
  "ic_offset mpi_rank mpi_size N_total =
     c_long_long (c_div (c_long_long (mpi_rank * N_total)) mpi_size)"

definition ic_N :: "int \<Rightarrow> int \<Rightarrow> int \<Rightarrow> nat" where
  "ic_N mpi_rank mpi_size N_total =
     c_size_t (c_long_long
       (c_long_long (c_div (c_long_long (c_int (mpi_rank + 1) * N_total)) mpi_size)
          - ic_offset mpi_rank mpi_size N_total))"

text \<open>The elements read by one rank: the hyperslab \<open>[offset, offset + N)\<close>.\<close>

definition ic_slice :: "int \<Rightarrow> int \<Rightarrow> int \<Rightarrow> int set" where
  "ic_slice mpi_rank mpi_size N_total =
     {ic_offset mpi_rank mpi_size N_total ..<
      ic_offset mpi_rank mpi_size N_total + int (ic_N mpi_rank mpi_size N_total)}"

section \<open>Floating-point arithmetic\<close>

text \<open>
  \<^verbatim>\<open>float\<close> and \<^verbatim>\<open>double\<close> are the binary formats of IEEE 754 with 24 and 53 bits of
  significand; every operation is evaluated in the format of its C type and rounded to
  the nearest value of the format, ties to the value with an even significand. A format
  is given by its precision \<open>p\<close> and its largest exponent \<open>emax\<close>: its finite values are
  the numbers \<open>m * 2\<^sup>k\<close> with \<open>\<bar>m\<bar> < 2\<^sup>p\<close> and \<open>1 - emax - p + 1 \<le> k \<le> emax - p + 1\<close>.
\<close>

record fp_format =
  precision :: nat
  emax :: int

definition binary32 :: fp_format where
  "binary32 = \<lparr>precision = 24, emax = 127\<rparr>"

definition binary64 :: fp_format where
  "binary64 = \<lparr>precision = 53, emax = 1023\<rparr>"

text \<open>
  A floating-point datum is a finite number, one of the two infinities, or a NaN. The
  two zeros of the format are one value here: they compare equal, and the code modelled
  below does nothing that tells them apart (the one division whose divisor can be zero,
  \<^verbatim>\<open>norm0 / norm1\<close> in the yield routines, is followed by the abort for \<^verbatim>\<open>norm1\<close> not
  positive).
\<close>

datatype fp = Finite real | PInf | NInf | NaN

text \<open>The exponent of a positive number: the \<open>e\<close> with \<open>2\<^sup>e \<le> x < 2\<^sup>e\<^sup>+\<^sup>1\<close>.\<close>

function ilog2 :: "real \<Rightarrow> int" where
  "ilog2 x =
     (if x \<le> 0 then 0
      else if 2 \<le> x then ilog2 (x / 2) + 1
      else if x < 1 then ilog2 (2 * x) - 1
      else 0)"
  by pat_completeness auto
termination
proof (relation "measure (\<lambda>x. nat \<lfloor>x\<rfloor> + 2 * nat \<lceil>1 / x\<rceil>)")
  show "wf (measure (\<lambda>x. nat \<lfloor>x\<rfloor> + 2 * nat \<lceil>1 / x\<rceil>))" by simp
next
  fix x :: real
  assume a: "\<not> x \<le> 0" "2 \<le> x"
  have f: "\<lfloor>x / 2\<rfloor> < \<lfloor>x\<rfloor>"
  proof -
    have "x / 2 + 1 \<le> x" using a by simp
    then have "\<lfloor>x / 2 + 1\<rfloor> \<le> \<lfloor>x\<rfloor>" by (rule floor_mono)
    then show ?thesis by simp
  qed
  have "1 \<le> \<lfloor>x\<rfloor>" using a by (simp add: le_floor_iff)
  with f have f': "nat \<lfloor>x / 2\<rfloor> < nat \<lfloor>x\<rfloor>" by linarith
  have "\<lceil>1 / (x / 2)\<rceil> = 1" using a by (intro ceiling_unique) simp_all
  moreover have "\<lceil>1 / x\<rceil> = 1" using a by (intro ceiling_unique) simp_all
  ultimately have c: "nat \<lceil>1 / (x / 2)\<rceil> \<le> nat \<lceil>1 / x\<rceil>" by simp
  show "(x / 2, x) \<in> measure (\<lambda>x. nat \<lfloor>x\<rfloor> + 2 * nat \<lceil>1 / x\<rceil>)"
    unfolding in_measure using f' c by linarith
next
  fix x :: real
  assume a: "\<not> x \<le> 0" "\<not> 2 \<le> x" "x < 1"
  have "\<lfloor>2 * x\<rfloor> \<le> 1" using a by (simp add: floor_le_iff)
  then have f: "nat \<lfloor>2 * x\<rfloor> \<le> nat \<lfloor>x\<rfloor> + 1" by linarith
  have x1: "1 < 1 / x" using a by simp
  then have c2: "2 \<le> \<lceil>1 / x\<rceil>" by (simp add: less_ceiling_iff)
  have "1 / (2 * x) \<le> of_int \<lceil>1 / x\<rceil> / 2"
  proof -
    have "1 / x \<le> of_int \<lceil>1 / x\<rceil>" by (rule le_of_int_ceiling)
    then show ?thesis by simp
  qed
  also have "\<dots> \<le> of_int (\<lceil>1 / x\<rceil> - 1)"
    using c2 by simp
  finally have "\<lceil>1 / (2 * x)\<rceil> \<le> \<lceil>1 / x\<rceil> - 1" by (rule ceiling_le)
  then have c: "nat \<lceil>1 / (2 * x)\<rceil> + 1 \<le> nat \<lceil>1 / x\<rceil>" using c2 by linarith
  show "(2 * x, x) \<in> measure (\<lambda>x. nat \<lfloor>x\<rfloor> + 2 * nat \<lceil>1 / x\<rceil>)"
    unfolding in_measure using f c by linarith
qed

declare ilog2.simps [simp del]

text \<open>The nearest integer, the even one of the two when both are equally near.\<close>

definition round_half_even :: "real \<Rightarrow> int" where
  "round_half_even y =
     (if y - of_int \<lfloor>y\<rfloor> < 1 / 2 then \<lfloor>y\<rfloor>
      else if 1 / 2 < y - of_int \<lfloor>y\<rfloor> then \<lfloor>y\<rfloor> + 1
      else if even \<lfloor>y\<rfloor> then \<lfloor>y\<rfloor> else \<lfloor>y\<rfloor> + 1)"

text \<open>The spacing of the values of the format around \<open>x\<close>, and the nearest value to \<open>\<bar>x\<bar>\<close>.\<close>

definition fp_quantum :: "fp_format \<Rightarrow> real \<Rightarrow> real" where
  "fp_quantum F x = 2 powi (max (ilog2 \<bar>x\<bar>) (1 - emax F) - int (precision F) + 1)"

definition fp_nearest :: "fp_format \<Rightarrow> real \<Rightarrow> real" where
  "fp_nearest F x = of_int (round_half_even (\<bar>x\<bar> / fp_quantum F x)) * fp_quantum F x"

text \<open>
  Rounding a real number to the format. A result beyond the largest finite value is an
  infinity; a result below the smallest normal value is rounded on the grid of the
  subnormal values, down to zero.
\<close>

definition fp_round :: "fp_format \<Rightarrow> real \<Rightarrow> fp" where
  "fp_round F x =
     (if x = 0 then Finite 0
      else if 2 powi (emax F + 1) \<le> fp_nearest F x then (if 0 < x then PInf else NInf)
      else Finite (if 0 < x then fp_nearest F x else - fp_nearest F x))"

text \<open>
  The operations of C on floating-point data: each rounds the exact result of finite
  operands, and follows the rules of the standard for infinities and NaN.
\<close>

fun fp_neg :: "fp \<Rightarrow> fp" where
  "fp_neg (Finite x) = Finite (- x)"
| "fp_neg PInf = NInf"
| "fp_neg NInf = PInf"
| "fp_neg NaN = NaN"

fun fp_negative :: "fp \<Rightarrow> bool" where
  "fp_negative (Finite x) = (x < 0)"
| "fp_negative NInf = True"
| "fp_negative PInf = False"
| "fp_negative NaN = False"

fun fp_add :: "fp_format \<Rightarrow> fp \<Rightarrow> fp \<Rightarrow> fp" where
  "fp_add F (Finite x) (Finite y) = fp_round F (x + y)"
| "fp_add F NaN b = NaN"
| "fp_add F a NaN = NaN"
| "fp_add F PInf NInf = NaN"
| "fp_add F NInf PInf = NaN"
| "fp_add F PInf b = PInf"
| "fp_add F a PInf = PInf"
| "fp_add F NInf b = NInf"
| "fp_add F a NInf = NInf"

definition fp_sub :: "fp_format \<Rightarrow> fp \<Rightarrow> fp \<Rightarrow> fp" where
  "fp_sub F a b = fp_add F a (fp_neg b)"

fun fp_mul :: "fp_format \<Rightarrow> fp \<Rightarrow> fp \<Rightarrow> fp" where
  "fp_mul F (Finite x) (Finite y) = fp_round F (x * y)"
| "fp_mul F NaN b = NaN"
| "fp_mul F a NaN = NaN"
| "fp_mul F (Finite x) b = (if x = 0 then NaN else if (x < 0) = fp_negative b then PInf else NInf)"
| "fp_mul F a (Finite y) = (if y = 0 then NaN else if fp_negative a = (y < 0) then PInf else NInf)"
| "fp_mul F a b = (if fp_negative a = fp_negative b then PInf else NInf)"

fun fp_div :: "fp_format \<Rightarrow> fp \<Rightarrow> fp \<Rightarrow> fp" where
  "fp_div F (Finite x) (Finite y) =
     (if y = 0 then (if x = 0 then NaN else if 0 < x then PInf else NInf)
      else fp_round F (x / y))"
| "fp_div F NaN b = NaN"
| "fp_div F a NaN = NaN"
| "fp_div F (Finite x) b = Finite 0"
| "fp_div F a (Finite y) = (if fp_negative a = (y < 0) then PInf else NInf)"
| "fp_div F a b = NaN"

text \<open>
  The comparisons \<^verbatim>\<open><=\<close>, \<^verbatim>\<open><\<close> and \<^verbatim>\<open>==\<close>; each is false when an operand is a NaN. \<^verbatim>\<open>a >= b\<close>
  is \<open>fp_le b a\<close> and \<^verbatim>\<open>a > b\<close> is \<open>fp_lt b a\<close>.
\<close>

fun fp_le :: "fp \<Rightarrow> fp \<Rightarrow> bool" where
  "fp_le (Finite x) (Finite y) = (x \<le> y)"
| "fp_le NaN b = False"
| "fp_le a NaN = False"
| "fp_le NInf b = True"
| "fp_le a PInf = True"
| "fp_le a b = False"

fun fp_lt :: "fp \<Rightarrow> fp \<Rightarrow> bool" where
  "fp_lt (Finite x) (Finite y) = (x < y)"
| "fp_lt NaN b = False"
| "fp_lt a NaN = False"
| "fp_lt PInf b = False"
| "fp_lt a NInf = False"
| "fp_lt a b = True"

fun fp_eq :: "fp \<Rightarrow> fp \<Rightarrow> bool" where
  "fp_eq (Finite x) (Finite y) = (x = y)"
| "fp_eq PInf PInf = True"
| "fp_eq NInf NInf = True"
| "fp_eq a b = False"

text \<open>
  The conversion of a floating-point datum to a format (a \<^verbatim>\<open>double\<close> stored in a \<^verbatim>\<open>float\<close>),
  the conversion of an integer, and the numbers that are values of a format. The
  conversion of a \<^verbatim>\<open>float\<close> to \<^verbatim>\<open>double\<close> is exact and is not written in the models.
\<close>

fun fp_conv :: "fp_format \<Rightarrow> fp \<Rightarrow> fp" where
  "fp_conv F (Finite x) = fp_round F x"
| "fp_conv F a = a"

definition fp_of_int :: "fp_format \<Rightarrow> int \<Rightarrow> fp" where
  "fp_of_int F i = fp_round F (of_int i)"

definition is_fp :: "fp_format \<Rightarrow> real \<Rightarrow> bool" where
  "is_fp F x = (fp_round F x = Finite x)"

text \<open>The operations in single precision (\<^verbatim>\<open>float\<close>) and in double precision (\<^verbatim>\<open>double\<close>).\<close>

abbreviation f_add :: "fp \<Rightarrow> fp \<Rightarrow> fp" where "f_add \<equiv> fp_add binary32"
abbreviation f_sub :: "fp \<Rightarrow> fp \<Rightarrow> fp" where "f_sub \<equiv> fp_sub binary32"
abbreviation f_mul :: "fp \<Rightarrow> fp \<Rightarrow> fp" where "f_mul \<equiv> fp_mul binary32"
abbreviation f_div :: "fp \<Rightarrow> fp \<Rightarrow> fp" where "f_div \<equiv> fp_div binary32"
abbreviation d_add :: "fp \<Rightarrow> fp \<Rightarrow> fp" where "d_add \<equiv> fp_add binary64"
abbreviation d_sub :: "fp \<Rightarrow> fp \<Rightarrow> fp" where "d_sub \<equiv> fp_sub binary64"
abbreviation d_mul :: "fp \<Rightarrow> fp \<Rightarrow> fp" where "d_mul \<equiv> fp_mul binary64"
abbreviation d_div :: "fp \<Rightarrow> fp \<Rightarrow> fp" where "d_div \<equiv> fp_div binary64"
abbreviation to_float :: "fp \<Rightarrow> fp" where "to_float \<equiv> fp_conv binary32"

section \<open>line\_of\_sight.c: data\<close>

text \<open>
  \<^verbatim>\<open>enum los_direction\<close> indexes the three components of a position. A \<^verbatim>\<open>double\<close>
  is modelled by a real number: the arithmetic of the model is exact.
\<close>

datatype los_direction = simulation_x_axis | simulation_y_axis | simulation_z_axis

type_synonym vec3 = "real \<times> real \<times> real"

fun vec3_at :: "vec3 \<Rightarrow> los_direction \<Rightarrow> real" where
  "vec3_at (a, b, c) simulation_x_axis = a"
| "vec3_at (a, b, c) simulation_y_axis = b"
| "vec3_at (a, b, c) simulation_z_axis = c"

record los_props =
  num_along_xy :: int
  num_along_yz :: int
  num_along_xz :: int
  num_tot :: int
  xmin :: real
  xmax :: real
  ymin :: real
  ymax :: real
  zmin :: real
  zmax :: real
  basename :: string

record line_of_sight =
  Xpos :: real
  Ypos :: real
  particles_in_los_local :: nat
  particles_in_los_total :: nat
  xaxis :: los_direction
  yaxis :: los_direction
  zaxis :: los_direction
  periodic :: int
  dim :: vec3

text \<open>
  The fields of \<^verbatim>\<open>struct part\<close> that the sightline code reads: the position \<^verbatim>\<open>x[3]\<close>, the
  smoothing length \<^verbatim>\<open>h\<close> and the \<^verbatim>\<open>time_bin\<close>. The companion \<^verbatim>\<open>struct xpart\<close> is only
  copied, so it is a type parameter.
\<close>

record part =
  p_x :: vec3
  p_h :: real
  p_time_bin :: int

text \<open>
  What the sightline code takes from headers outside this excerpt: the constants
  \<^verbatim>\<open>kernel_gamma\<close> and \<^verbatim>\<open>time_bin_inhibited\<close> and the periodic wrap \<^verbatim>\<open>nearest(dx, L)\<close>.
  They are parameters of the model.
\<close>

record kernel_env =
  kernel_gamma :: real
  time_bin_inhibited :: int
  nearest :: "real \<Rightarrow> real \<Rightarrow> real"


section \<open>line\_of\_sight.c: reading the configuration\<close>






section \<open>line\_of\_sight.c: generating the sightlines\<close>

definition create_line_of_sight ::
  "real \<Rightarrow> real \<Rightarrow> los_direction \<Rightarrow> los_direction \<Rightarrow> los_direction \<Rightarrow> int \<Rightarrow> vec3 \<Rightarrow> line_of_sight"
where
  "create_line_of_sight Xp Yp xa ya za per d =
     \<lparr>Xpos = Xp, Ypos = Yp, particles_in_los_local = 0, particles_in_los_total = 0,
      xaxis = xa, yaxis = ya, zaxis = za, periodic = per, dim = d\<rparr>"






section \<open>line\_of\_sight.c: the two filtering passes\<close>

text \<open>
  The loop of \<^verbatim>\<open>los_first_loop_mapper\<close> over the \<^verbatim>\<open>count\<close> records of one chunk, with the
  running \<^verbatim>\<open>los_particle_count\<close>. The nesting of the tests is the source's.
\<close>

fun los_first_loop :: "kernel_env \<Rightarrow> line_of_sight \<Rightarrow> part list \<Rightarrow> nat \<Rightarrow> nat" where
  "los_first_loop K LOS [] los_particle_count = los_particle_count"
| "los_first_loop K LOS (p # ps) los_particle_count =
     (if p_time_bin p = time_bin_inhibited K then los_first_loop K LOS ps los_particle_count
      else
        (let dx0 = vec3_at (p_x p) (xaxis LOS) - Xpos LOS;
             dx = (if periodic LOS \<noteq> 0 then nearest K dx0 (vec3_at (dim LOS) (xaxis LOS)) else dx0);
             hsml = p_h p * kernel_gamma K
         in if dx \<le> hsml then
              (let dy0 = vec3_at (p_x p) (yaxis LOS) - Ypos LOS;
                   dy = (if periodic LOS \<noteq> 0 then nearest K dy0 (vec3_at (dim LOS) (yaxis LOS)) else dy0)
               in if dy \<le> hsml then
                    (let r2 = dx * dx + dy * dy
                     in if r2 \<le> hsml * hsml
                        then los_first_loop K LOS ps (los_particle_count + 1)
                        else los_first_loop K LOS ps los_particle_count)
                  else los_first_loop K LOS ps los_particle_count)
            else los_first_loop K LOS ps los_particle_count))"

text \<open>
  \<^verbatim>\<open>atomic_add(&LOS_list->particles_in_los_local, los_particle_count)\<close> ends the mapper.
\<close>

definition los_first_loop_mapper :: "kernel_env \<Rightarrow> part list \<Rightarrow> line_of_sight \<Rightarrow> line_of_sight" where
  "los_first_loop_mapper K map_data LOS =
     LOS\<lparr>particles_in_los_local := particles_in_los_local LOS + los_first_loop K LOS map_data 0\<rparr>"

text \<open>
  Modelled from the spec: \<^verbatim>\<open>threadpool_map\<close> is not part of the excerpt. The local array
  is cut into chunks, the mapper runs on every chunk, and the partial counts are
  combined by the mapper's atomic addition (which commutes, so the chunks are taken in
  array order). The chunk size is a parameter; 0 stands for one chunk.
\<close>

function threadpool_chunks :: "nat \<Rightarrow> 'a list \<Rightarrow> 'a list list" where
  "threadpool_chunks n xs =
     (if n = 0 \<or> length xs \<le> n then [xs]
      else take n xs # threadpool_chunks n (drop n xs))"
  by pat_completeness auto
termination
  by (relation "measure (\<lambda>(n, xs). length xs)") auto

declare threadpool_chunks.simps [simp del]

definition threadpool_map ::
  "nat \<Rightarrow> ('a list \<Rightarrow> 'e \<Rightarrow> 'e) \<Rightarrow> 'a list \<Rightarrow> 'e \<Rightarrow> 'e"
where
  "threadpool_map chunk_size mapper map_data extra_data =
     fold mapper (threadpool_chunks chunk_size map_data) extra_data"

text \<open>
  The second loop of \<^verbatim>\<open>do_line_of_sight\<close>, over \<^verbatim>\<open>i = 0 .. nr_parts - 1\<close>: a record that
  passes the tests is copied, with its companion, to position \<^verbatim>\<open>count\<close> of the two
  buffers. A copy beyond the end of a buffer (undefined in C) gives \<open>None\<close>.
\<close>

function los_second_loop ::
  "kernel_env \<Rightarrow> line_of_sight \<Rightarrow> part list \<Rightarrow> 'x list \<Rightarrow> nat \<Rightarrow> nat \<Rightarrow>
   nat \<times> part list \<times> 'x list \<Rightarrow> (nat \<times> part list \<times> 'x list) option"
where
  "los_second_loop K LOS ps xps nr i (count, LOS_parts, LOS_xparts) =
     (if i < nr then
        (if p_time_bin (ps ! i) = time_bin_inhibited K
         then los_second_loop K LOS ps xps nr (i + 1) (count, LOS_parts, LOS_xparts)
         else
           (let dx0 = vec3_at (p_x (ps ! i)) (xaxis LOS) - Xpos LOS;
                dx = (if periodic LOS \<noteq> 0 then nearest K dx0 (vec3_at (dim LOS) (xaxis LOS)) else dx0);
                hsml = p_h (ps ! i) * kernel_gamma K
            in if dx \<le> hsml then
                 (let dy0 = vec3_at (p_x (ps ! i)) (yaxis LOS) - Ypos LOS;
                      dy = (if periodic LOS \<noteq> 0 then nearest K dy0 (vec3_at (dim LOS) (yaxis LOS)) else dy0)
                  in if dy \<le> hsml then
                       (let r2 = dx * dx + dy * dy
                        in if r2 \<le> hsml * hsml then
                             (if count < length LOS_parts \<and> count < length LOS_xparts
                              then los_second_loop K LOS ps xps nr (i + 1)
                                     (count + 1, LOS_parts[count := ps ! i], LOS_xparts[count := xps ! i])
                              else None)
                           else los_second_loop K LOS ps xps nr (i + 1) (count, LOS_parts, LOS_xparts))
                     else los_second_loop K LOS ps xps nr (i + 1) (count, LOS_parts, LOS_xparts))
               else los_second_loop K LOS ps xps nr (i + 1) (count, LOS_parts, LOS_xparts)))
      else Some (count, LOS_parts, LOS_xparts))"
  by pat_completeness auto
termination
  by (relation "measure (\<lambda>(K, LOS, ps, xps, nr, i, st). nr - i)") auto

declare los_second_loop.simps [simp del]

text \<open>
  The predicate the specification gives for a match: the record is not inhibited and,
  after the optional wrap of the two planar differences, the squared planar distance is
  at most the square of the smoothing length times \<^verbatim>\<open>kernel_gamma\<close>. It is the
  specification's wording, to be compared with the loops above.
\<close>

definition los_wrapped_dx :: "kernel_env \<Rightarrow> line_of_sight \<Rightarrow> part \<Rightarrow> real" where
  "los_wrapped_dx K LOS p =
     (if periodic LOS \<noteq> 0
      then nearest K (vec3_at (p_x p) (xaxis LOS) - Xpos LOS) (vec3_at (dim LOS) (xaxis LOS))
      else vec3_at (p_x p) (xaxis LOS) - Xpos LOS)"

definition los_wrapped_dy :: "kernel_env \<Rightarrow> line_of_sight \<Rightarrow> part \<Rightarrow> real" where
  "los_wrapped_dy K LOS p =
     (if periodic LOS \<noteq> 0
      then nearest K (vec3_at (p_x p) (yaxis LOS) - Ypos LOS) (vec3_at (dim LOS) (yaxis LOS))
      else vec3_at (p_x p) (yaxis LOS) - Ypos LOS)"

definition spec_los_match :: "kernel_env \<Rightarrow> line_of_sight \<Rightarrow> part \<Rightarrow> bool" where
  "spec_los_match K LOS p =
     (p_time_bin p \<noteq> time_bin_inhibited K \<and>
      los_wrapped_dx K LOS p * los_wrapped_dx K LOS p + los_wrapped_dy K LOS p * los_wrapped_dy K LOS p
        \<le> (p_h p * kernel_gamma K) * (p_h p * kernel_gamma K))"

text \<open>
  What the loops test: the specification's predicate together with the two guards
  \<^verbatim>\<open>dx <= hsml\<close> and \<^verbatim>\<open>dy <= hsml\<close>.
\<close>

definition los_guarded_match :: "kernel_env \<Rightarrow> line_of_sight \<Rightarrow> part \<Rightarrow> bool" where
  "los_guarded_match K LOS p =
     (los_wrapped_dx K LOS p \<le> p_h p * kernel_gamma K \<and>
      los_wrapped_dy K LOS p \<le> p_h p * kernel_gamma K \<and>
      spec_los_match K LOS p)"

text \<open>
  The indices \<open>k\<close> with \<open>i \<le> k < nr\<close>, in increasing order, of the records that satisfy
  a predicate.
\<close>

definition matching_indices :: "(part \<Rightarrow> bool) \<Rightarrow> part list \<Rightarrow> nat \<Rightarrow> nat \<Rightarrow> nat list" where
  "matching_indices G ps i nr = filter (\<lambda>k. G (ps ! k)) [i ..< nr]"

section \<open>line\_of\_sight.c: the extraction pass\<close>



text \<open>
  The part of \<^verbatim>\<open>struct space\<close> and \<^verbatim>\<open>struct engine\<close> that the pass reads. The pass is
  modelled in the configuration with MPI; every rank runs the same code on its own
  particle arrays, so the model is given the spaces of all ranks, in rank order, and
  follows the rank \<^verbatim>\<open>nodeID\<close>. \<^verbatim>\<open>debug_checks\<close> stands for the compile-time switch
  \<^verbatim>\<open>SWIFT_DEBUG_CHECKS\<close>.
\<close>

record 'x space =
  parts :: "part list"
  xparts :: "'x list"
  nr_parts :: nat
  space_periodic :: int
  space_dim :: vec3

record engine =
  nodeID :: nat
  los_properties :: los_props
  los_output_count :: int
  snapshot_compression :: int
  threadpool_chunk_size :: nat
  debug_checks :: bool




text \<open>
  \<^verbatim>\<open>MPI_Allgather\<close> of \<^verbatim>\<open>particles_in_los_local\<close>: entry \<open>k\<close> is the count rank \<open>k\<close> has
  after its own first pass over sightline \<open>j\<close> (all ranks hold the same sightline list
  after the broadcast).
\<close>

definition MPI_Allgather_counts ::
  "engine \<Rightarrow> kernel_env \<Rightarrow> 'x space list \<Rightarrow> line_of_sight \<Rightarrow> nat list"
where
  "MPI_Allgather_counts e K ranks LOS =
     map (\<lambda>s. particles_in_los_local
                 (threadpool_map (threadpool_chunk_size e) (los_first_loop_mapper K) (parts s) LOS))
         ranks"





section \<open>Creating a dataset: line\_of\_sight.c and serial\_io.c\<close>

text \<open>
  What the two writers hand to \<^verbatim>\<open>H5Dcreate\<close>: the data space set by
  \<^verbatim>\<open>H5Sset_extent_simple\<close> (the first \<^verbatim>\<open>rank\<close> entries of \<^verbatim>\<open>shape\<close>) and the creation
  property list. The calls on the property list are the library's setters; a failing
  call is fatal in the source and the model follows the run in which they succeed.
\<close>

record h5_plist =
  pl_chunk :: "nat list"
  pl_fletcher32 :: bool
  pl_shuffle :: bool
  pl_deflate :: "int option"

definition H5Pcreate :: h5_plist where
  "H5Pcreate = \<lparr>pl_chunk = [], pl_fletcher32 = False, pl_shuffle = False, pl_deflate = None\<rparr>"

definition H5Pset_chunk :: "h5_plist \<Rightarrow> nat \<Rightarrow> nat list \<Rightarrow> h5_plist" where
  "H5Pset_chunk pl rank chunk_shape = pl\<lparr>pl_chunk := take rank chunk_shape\<rparr>"

definition H5Pset_fletcher32 :: "h5_plist \<Rightarrow> h5_plist" where
  "H5Pset_fletcher32 pl = pl\<lparr>pl_fletcher32 := True\<rparr>"

definition H5Pset_shuffle :: "h5_plist \<Rightarrow> h5_plist" where
  "H5Pset_shuffle pl = pl\<lparr>pl_shuffle := True\<rparr>"

definition H5Pset_deflate :: "h5_plist \<Rightarrow> int \<Rightarrow> h5_plist" where
  "H5Pset_deflate pl level = pl\<lparr>pl_deflate := Some level\<rparr>"

definition H5Sset_extent_simple :: "nat \<Rightarrow> nat list \<Rightarrow> nat list" where
  "H5Sset_extent_simple rank shape = take rank shape"

record h5_dcreate =
  dc_space :: "nat list"
  dc_plist :: h5_plist

text \<open>
  \<^verbatim>\<open>write_los_hdf5_dataset\<close>, up to \<^verbatim>\<open>H5Dcreate\<close>: \<open>dimension\<close> is \<^verbatim>\<open>props.dimension\<close>,
  \<open>N\<close> the number of records of the sightline and \<open>compression\<close> the engine's
  \<^verbatim>\<open>snapshot_compression\<close>. \<^verbatim>\<open>1 << 20\<close> is the chunk extent the source starts from.
\<close>

definition write_los_hdf5_dataset :: "int \<Rightarrow> nat \<Rightarrow> int \<Rightarrow> h5_dcreate" where
  "write_los_hdf5_dataset dimension N compression =
     (let (rank, shape, chunk_shape0) =
            (if dimension > 1
             then (2, [N, nat dimension], [2 ^ 20, nat dimension])
             else (1, [N, 0], [2 ^ 20, 0]));
          chunk_shape = (if chunk_shape0 ! 0 > N then chunk_shape0[0 := N] else chunk_shape0);
          h_space = H5Sset_extent_simple rank shape;
          h_prop0 = H5Pset_fletcher32 (H5Pset_chunk H5Pcreate rank chunk_shape);
          h_prop = (if compression > 0
                    then H5Pset_deflate (H5Pset_shuffle h_prop0) compression
                    else h_prop0)
      in \<lparr>dc_space = h_space, dc_plist = h_prop\<rparr>)"

text \<open>
  \<^verbatim>\<open>prepareArray\<close>, up to \<^verbatim>\<open>H5Dcreate\<close>. \<^verbatim>\<open>N_total\<close> is a \<^verbatim>\<open>long long\<close> that is stored in,
  and compared with, the unsigned 64-bit \<^verbatim>\<open>hsize_t\<close>.
\<close>

definition hsize_of_long_long :: "int \<Rightarrow> nat" where
  "hsize_of_long_long v = nat (v mod 2 ^ 64)"

definition prepareArray :: "int \<Rightarrow> int \<Rightarrow> h5_dcreate" where
  "prepareArray dimension N_total =
     (let (rank, shape, chunk_shape0) =
            (if dimension > 1
             then (2, [hsize_of_long_long N_total, nat dimension], [2 ^ 16, nat dimension])
             else (1, [hsize_of_long_long N_total, 0], [2 ^ 16, 0]));
          chunk_shape = (if chunk_shape0 ! 0 > hsize_of_long_long N_total
                         then chunk_shape0[0 := hsize_of_long_long N_total] else chunk_shape0);
          h_space = H5Sset_extent_simple rank shape;
          h_prop = H5Pset_deflate (H5Pset_chunk H5Pcreate rank chunk_shape) 4
      in \<lparr>dc_space = h_space, dc_plist = h_prop\<rparr>)"

text \<open>
  The specification's description of a declared dataset, for \<open>N\<close> elements of vector
  width \<open>d\<close>, a maximum chunk extent and a configured compression level.
\<close>

definition spec_dataset_shape :: "nat \<Rightarrow> int \<Rightarrow> nat list" where
  "spec_dataset_shape N d = (if d > 1 then [N, nat d] else [N])"

definition spec_chunk_extent :: "nat \<Rightarrow> nat \<Rightarrow> nat" where
  "spec_chunk_extent max_extent N = (if N < max_extent then N else max_extent)"

definition spec_declare_dataset :: "nat \<Rightarrow> h5_dcreate \<Rightarrow> nat \<Rightarrow> int \<Rightarrow> int \<Rightarrow> bool" where
  "spec_declare_dataset max_extent dc N d compression =
     (dc_space dc = spec_dataset_shape N d \<and>
      hd (pl_chunk (dc_plist dc)) = spec_chunk_extent max_extent N \<and>
      pl_fletcher32 (dc_plist dc) \<and>
      ((pl_shuffle (dc_plist dc) \<and> pl_deflate (dc_plist dc) \<noteq> None) = (compression > 0)) \<and>
      ((pl_shuffle (dc_plist dc) \<or> pl_deflate (dc_plist dc) \<noteq> None) = (compression > 0)))"

section \<open>serial\_io.c: reading an array\<close>

text \<open>
  Memory is a map from byte addresses to bytes. \<^verbatim>\<open>props.field\<close> is the address of the
  field in the first record and \<^verbatim>\<open>props.partSize\<close> the size of a record.
\<close>

type_synonym byte = "8 word"
type_synonym memory = "nat \<Rightarrow> byte"

definition memset :: "memory \<Rightarrow> nat \<Rightarrow> byte \<Rightarrow> nat \<Rightarrow> memory" where
  "memset m dst c n = (\<lambda>a. if dst \<le> a \<and> a < dst + n then c else m a)"

text \<open>A copy of \<open>n\<close> bytes from position \<open>src\<close> of a separate buffer.\<close>

definition memcpy :: "memory \<Rightarrow> nat \<Rightarrow> (nat \<Rightarrow> byte) \<Rightarrow> nat \<Rightarrow> nat \<Rightarrow> memory" where
  "memcpy m dst buf src n = (\<lambda>a. if dst \<le> a \<and> a < dst + n then buf (src + (a - dst)) else m a)"

datatype importance = COMPULSORY | OPTIONAL

text \<open>
  The fields of \<^verbatim>\<open>struct io_props\<close> that \<^verbatim>\<open>readArray\<close> uses. The enumeration of data types
  and the unit tags are declared outside the excerpt: they are type parameters. The
  vector width \<^verbatim>\<open>dimension\<close> enters only products of type \<^verbatim>\<open>size_t\<close>; it is held as a
  natural number.
\<close>

record ('t, 'u) io_props =
  io_name :: string
  io_type :: 't
  io_dimension :: nat
  io_importance :: importance
  io_units :: 'u
  io_field :: nat
  io_partSize :: nat

text \<open>
  Modelled from the spec: the structured-file library is not part of the repository.
  A group maps names to datasets; a dataset holds rows of bytes, and a read of the
  hyperslab \<open>[offset, offset + N)\<close> fills the buffer with the rows \<open>offset\<close>,
  \<open>offset + 1\<close>, ... one after the other. Each library call may also fail.
\<close>

record h5_dataset =
  ds_row :: "nat \<Rightarrow> nat \<Rightarrow> byte"
  ds_open_fails :: bool
  ds_get_type_fails :: bool
  ds_read_fails :: bool

record h5_group =
  grp_link_error :: "string \<Rightarrow> bool"
  grp_dataset :: "string \<rightharpoonup> h5_dataset"

definition H5Lexists :: "h5_group \<Rightarrow> string \<Rightarrow> int" where
  "H5Lexists grp name =
     (if grp_link_error grp name then - 1
      else if grp_dataset grp name = None then 0 else 1)"

definition H5Dopen :: "h5_group \<Rightarrow> string \<Rightarrow> h5_dataset option" where
  "H5Dopen grp name =
     (case grp_dataset grp name of
        None \<Rightarrow> None
      | Some d \<Rightarrow> if ds_open_fails d then None else Some d)"

definition H5Dread :: "h5_dataset \<Rightarrow> nat \<Rightarrow> nat \<Rightarrow> (nat \<Rightarrow> byte) option" where
  "H5Dread d offset row_size =
     (if ds_read_fails d then None
      else Some (\<lambda>k. ds_row d (offset + k div row_size) (k mod row_size)))"

text \<open>
  What \<^verbatim>\<open>readArray\<close> takes from the rest of the program: the size of a data type, whether
  it is double precision, the conversion factor of a unit from the units of the file to
  the internal units, the in-place multiplication of the \<^verbatim>\<open>num_elements\<close> floating-point
  values of a buffer by the factor, and whether \<^verbatim>\<open>malloc\<close> fails.
\<close>

record ('t, 'u) io_env =
  sizeOfType :: "'t \<Rightarrow> nat"
  isDoublePrecision :: "'t \<Rightarrow> bool"
  units_conversion_factor :: "'u \<Rightarrow> real"
  multiply_buffer :: "bool \<Rightarrow> real \<Rightarrow> nat \<Rightarrow> (nat \<Rightarrow> byte) \<Rightarrow> (nat \<Rightarrow> byte)"
  malloc_fails :: "nat \<Rightarrow> bool"

datatype io_error =
    Error_checking_existence string
  | Compulsory_data_set_not_present string
  | Error_opening_data_space string
  | Unable_to_retrieve_data_type
  | Unable_to_allocate_buffer
  | Error_reading_data_array string

text \<open>The loop that zeroes the field of the records \<open>i, i + 1, ..., N - 1\<close>.\<close>

function readArray_zero_loop :: "('t, 'u) io_props \<Rightarrow> nat \<Rightarrow> nat \<Rightarrow> nat \<Rightarrow> memory \<Rightarrow> memory" where
  "readArray_zero_loop props copySize N i m =
     (if i < N
      then readArray_zero_loop props copySize N (i + 1)
             (memset m (io_field props + i * io_partSize props) 0 copySize)
      else m)"
  by pat_completeness auto
termination
  by (relation "measure (\<lambda>(props, copySize, N, i, m). N - i)") auto

declare readArray_zero_loop.simps [simp del]

text \<open>The loop that copies the temporary buffer into the field of the records.\<close>

function readArray_copy_loop ::
  "('t, 'u) io_props \<Rightarrow> nat \<Rightarrow> (nat \<Rightarrow> byte) \<Rightarrow> nat \<Rightarrow> nat \<Rightarrow> memory \<Rightarrow> memory"
where
  "readArray_copy_loop props copySize temp N i m =
     (if i < N
      then readArray_copy_loop props copySize temp N (i + 1)
             (memcpy m (io_field props + i * io_partSize props) temp (i * copySize) copySize)
      else m)"
  by pat_completeness auto
termination
  by (relation "measure (\<lambda>(props, copySize, temp, N, i, m). N - i)") auto

declare readArray_copy_loop.simps [simp del]

definition readArray ::
  "('t, 'u) io_env \<Rightarrow> h5_group \<Rightarrow> ('t, 'u) io_props \<Rightarrow> nat \<Rightarrow> nat \<Rightarrow> memory \<Rightarrow> io_error + memory"
where
  "readArray env grp props N offset m =
     (let typeSize = sizeOfType env (io_type props);
          copySize = typeSize * io_dimension props;
          num_elements = N * io_dimension props;
          exist = H5Lexists grp (io_name props)
      in if exist < 0 then Inl (Error_checking_existence (io_name props))
         else if exist = 0 then
           (if io_importance props = COMPULSORY
            then Inl (Compulsory_data_set_not_present (io_name props))
            else Inr (readArray_zero_loop props copySize N 0 m))
         else
           (case H5Dopen grp (io_name props) of
              None \<Rightarrow> Inl (Error_opening_data_space (io_name props))
            | Some h_data \<Rightarrow>
                if ds_get_type_fails h_data then Inl Unable_to_retrieve_data_type
                else if malloc_fails env (num_elements * typeSize) then Inl Unable_to_allocate_buffer
                else
                  (case H5Dread h_data offset copySize of
                     None \<Rightarrow> Inl (Error_reading_data_array (io_name props))
                   | Some temp0 \<Rightarrow>
                       (let factor = units_conversion_factor env (io_units props);
                            temp = (if factor \<noteq> 1 \<and> exist \<noteq> 0
                                    then multiply_buffer env (isDoublePrecision env (io_type props))
                                           factor num_elements temp0
                                    else temp0)
                        in Inr (readArray_copy_loop props copySize temp N 0 m)))))"

text \<open>
  The destination of record \<open>i\<close>: the \<open>copySize\<close> bytes of its field.
\<close>

definition readArray_region :: "('t, 'u) io_props \<Rightarrow> nat \<Rightarrow> nat \<Rightarrow> nat \<Rightarrow> bool" where
  "readArray_region props copySize i a =
     (io_field props + i * io_partSize props \<le> a \<and>
      a < io_field props + i * io_partSize props + copySize)"

section \<open>stars/EAGLE/stars.h: stellar evolution of a star particle\<close>

text \<open>
  The \<^verbatim>\<open>to_distribute\<close> block of \<^verbatim>\<open>struct spart\<close> and the other fields the evolution reads.
  The structures are declared outside the excerpt; their floating-point fields are taken
  to be \<^verbatim>\<open>float\<close>, the type of the locals of the routines that receive them. \<^verbatim>\<open>metal_mass\<close>
  is an array of \<^verbatim>\<open>chemistry_element_count\<close> entries.
\<close>

record to_distribute =
  num_SNIa :: fp
  num_SNII :: fp
  num_SNe :: fp
  mass :: fp
  metal_mass :: "fp list"
  total_metal_mass :: fp
  mass_from_AGB :: fp
  metal_mass_from_AGB :: fp
  mass_from_SNII :: fp
  metal_mass_from_SNII :: fp
  mass_from_SNIa :: fp
  metal_mass_from_SNIa :: fp
  Fe_mass_from_SNIa :: fp

record spart =
  birth_time :: fp
  mass_init :: fp
  metal_mass_fraction_total :: fp
  metal_mass_fraction :: "fp list"
  sp_to_distribute :: to_distribute

text \<open>The fields of \<^verbatim>\<open>stars_props.feedback\<close> that the three routines read.\<close>

record feedback_props =
  log10_SNII_min_mass_msun :: fp
  log10_SNII_max_mass_msun :: fp
  log10_SNIa_max_mass_msun :: fp
  SNIa_efficiency :: fp
  SNIa_timescale :: fp
  const_solar_mass :: fp
  yield_SNIa_total_metals_IMF_resampled :: fp
  yield_SNIa_IMF_resampled :: "fp list"
  SNII_wind_delay :: fp

text \<open>
  What the routines take from outside the excerpt: the number of chemical elements and
  the indices of hydrogen, helium and iron, the conversion of the time unit to CGS, the
  C library's \<^verbatim>\<open>exp\<close> and its constant \<^verbatim>\<open>M_LN10\<close> (both \<^verbatim>\<open>double\<close>), the lifetime and
  dying-mass functions (the latter with its \<^verbatim>\<open>log10\<close>, a \<^verbatim>\<open>double\<close>), and the integrals over
  the initial mass function of the tabulated yields. For the type-II supernovae and for
  the AGB stars these integrals are: the number of events, the metals \<^verbatim>\<open>metals[i]\<close> per
  element, the total \<^verbatim>\<open>mass\<close>, and the normalisation \<^verbatim>\<open>norm0\<close>, all as functions of the
  particle and of the two limits of the mass interval. Each is stored in a \<^verbatim>\<open>float\<close>.
\<close>

record yield_env =
  chemistry_element_count :: nat
  chemistry_element_H :: nat
  chemistry_element_He :: nat
  chemistry_element_Fe :: nat
  units_cgs_time :: fp
  libm_exp :: "fp \<Rightarrow> fp"
  M_LN10 :: fp
  lifetime_in_Gyr :: "fp \<Rightarrow> fp \<Rightarrow> fp"
  log10_dying_mass_msun :: "fp \<Rightarrow> fp \<Rightarrow> fp"
  SNII_number :: "fp \<Rightarrow> fp \<Rightarrow> fp"
  SNII_metals :: "spart \<Rightarrow> fp \<Rightarrow> fp \<Rightarrow> fp list"
  SNII_mass :: "spart \<Rightarrow> fp \<Rightarrow> fp \<Rightarrow> fp"
  SNII_norm0 :: "spart \<Rightarrow> fp \<Rightarrow> fp \<Rightarrow> fp"
  AGB_metals :: "spart \<Rightarrow> fp \<Rightarrow> fp \<Rightarrow> fp list"
  AGB_mass :: "spart \<Rightarrow> fp \<Rightarrow> fp \<Rightarrow> fp"
  AGB_norm0 :: "spart \<Rightarrow> fp \<Rightarrow> fp \<Rightarrow> fp"

datatype star_error = Min_dying_mass_greater_than_max | Wrong_normalization fp

text \<open>
  A loop \<^verbatim>\<open>for (i = 0; i < chemistry_element_count; i++) a[i] = f(i, a[i])\<close> over an
  array.
\<close>

definition for_elements :: "nat \<Rightarrow> (nat \<Rightarrow> fp \<Rightarrow> fp) \<Rightarrow> fp list \<Rightarrow> fp list" where
  "for_elements n f a = fold (\<lambda>i a. a[i := f i (a ! i)]) [0..<n] a"

text \<open>\<^verbatim>\<open>if (v < 0) v = 0;\<close> A NaN is not below zero and is kept.\<close>

definition zero_negative :: "fp \<Rightarrow> fp" where
  "zero_negative v = (if fp_lt v (Finite 0) then Finite 0 else v)"

text \<open>
  \<^verbatim>\<open>evolve_SNIa\<close>. The arguments are \<^verbatim>\<open>float\<close>. The arguments of \<^verbatim>\<open>exp\<close> are \<^verbatim>\<open>float\<close> quotients;
  the difference of the two exponentials and its products with the efficiency and the
  initial mass are \<^verbatim>\<open>double\<close>, stored in the \<^verbatim>\<open>float\<close> \<^verbatim>\<open>num_SNIa_per_msun\<close>.
\<close>

definition evolve_SNIa ::
  "yield_env \<Rightarrow> feedback_props \<Rightarrow> fp \<Rightarrow> fp \<Rightarrow> spart \<Rightarrow> fp \<Rightarrow> fp \<Rightarrow> spart"
where
  "evolve_SNIa Y stars log10_min_mass log10_max_mass sp star_age_Gyr dt_Gyr =
     (if fp_le (log10_SNIa_max_mass_msun stars) log10_min_mass then sp
      else
        (let (age, dt) =
               (if fp_lt (log10_SNIa_max_mass_msun stars) log10_max_mass
                then (let lifetime_Gyr =
                            to_float (lifetime_in_Gyr Y
                              (libm_exp Y (d_mul (M_LN10 Y) (log10_SNIa_max_mass_msun stars)))
                              (metal_mass_fraction_total sp))
                      in (lifetime_Gyr, f_sub (f_add star_age_Gyr dt_Gyr) lifetime_Gyr))
                else (star_age_Gyr, dt_Gyr));
             num_SNIa_per_msun =
               to_float
                 (d_mul
                    (d_mul (SNIa_efficiency stars)
                       (d_sub (libm_exp Y (f_div (fp_neg age) (SNIa_timescale stars)))
                          (libm_exp Y (f_div (fp_neg (f_add age dt)) (SNIa_timescale stars)))))
                    (mass_init sp));
             td = sp_to_distribute sp;
             td1 = td\<lparr>num_SNIa := f_mul num_SNIa_per_msun (const_solar_mass stars),
                      mass := f_add (mass td)
                        (f_mul num_SNIa_per_msun (yield_SNIa_total_metals_IMF_resampled stars))\<rparr>;
             td2 = td1\<lparr>metal_mass :=
                      for_elements (chemistry_element_count Y)
                        (\<lambda>i v. f_add v (f_mul num_SNIa_per_msun (yield_SNIa_IMF_resampled stars ! i)))
                        (metal_mass td1)\<rparr>;
             td3 = td2\<lparr>metal_mass_from_SNIa := f_add (metal_mass_from_SNIa td2)
                        (f_mul num_SNIa_per_msun (yield_SNIa_total_metals_IMF_resampled stars)),
                      total_metal_mass := f_add (total_metal_mass td2)
                        (f_mul num_SNIa_per_msun (yield_SNIa_total_metals_IMF_resampled stars)),
                      mass_from_SNIa := f_add (mass_from_SNIa td2)
                        (f_mul num_SNIa_per_msun (yield_SNIa_total_metals_IMF_resampled stars)),
                      Fe_mass_from_SNIa := f_add (Fe_mass_from_SNIa td2)
                        (f_mul num_SNIa_per_msun
                           (yield_SNIa_IMF_resampled stars ! chemistry_element_Fe Y))\<rparr>
         in sp\<lparr>sp_to_distribute := td3\<rparr>))"

text \<open>
  \<^verbatim>\<open>evolve_SNII\<close>. \<^verbatim>\<open>metals\<close>, \<^verbatim>\<open>mass\<close>, \<^verbatim>\<open>norm0\<close>, \<^verbatim>\<open>norm1\<close> and \<^verbatim>\<open>norm_factor\<close> are \<^verbatim>\<open>float\<close>; the
  normalisation factor is computed before \<^verbatim>\<open>norm1\<close> is tested.
\<close>

definition evolve_SNII ::
  "yield_env \<Rightarrow> feedback_props \<Rightarrow> fp \<Rightarrow> fp \<Rightarrow> spart \<Rightarrow> star_error + spart"
where
  "evolve_SNII Y stars log10_min_mass0 log10_max_mass0 sp =
     (let log10_min_mass = (if fp_lt log10_min_mass0 (log10_SNII_min_mass_msun stars)
                            then log10_SNII_min_mass_msun stars else log10_min_mass0);
          log10_max_mass = (if fp_lt (log10_SNII_max_mass_msun stars) log10_max_mass0
                            then log10_SNII_max_mass_msun stars else log10_max_mass0)
      in if fp_le log10_max_mass log10_min_mass then Inr sp
         else
           (let td = (sp_to_distribute sp)
                       \<lparr>num_SNII := to_float (SNII_number Y log10_min_mass log10_max_mass)\<rparr>;
                metals = map (\<lambda>v. zero_negative (to_float v))
                           (SNII_metals Y sp log10_min_mass log10_max_mass);
                massv = zero_negative (to_float (SNII_mass Y sp log10_min_mass log10_max_mass));
                norm0 = to_float (SNII_norm0 Y sp log10_min_mass log10_max_mass);
                norm1 = f_add (f_add massv (metals ! chemistry_element_H Y))
                          (metals ! chemistry_element_He Y);
                norm_factor = f_mul (f_div norm0 norm1) (mass_init sp)
            in if fp_lt (Finite 0) norm1 then
                 (let td1 = td\<lparr>metal_mass :=
                              for_elements (chemistry_element_count Y)
                                (\<lambda>i v. f_add v (f_mul (metals ! i) norm_factor)) (metal_mass td)\<rparr>;
                      td2 = td1\<lparr>mass_from_SNII :=
                              fold (\<lambda>i acc. f_add acc (metal_mass td1 ! i))
                                [0..<chemistry_element_count Y] (mass_from_SNII td1)\<rparr>;
                      td3 = td2\<lparr>mass := f_add (mass td2) (mass_from_SNII td2),
                               total_metal_mass :=
                                 f_add (total_metal_mass td2) (f_mul massv norm_factor),
                               metal_mass_from_SNII :=
                                 f_add (metal_mass_from_SNII td2) (f_mul massv norm_factor)\<rparr>
                  in Inr (sp\<lparr>sp_to_distribute := td3\<rparr>))
               else Inl (Wrong_normalization norm1)))"

definition evolve_AGB ::
  "yield_env \<Rightarrow> feedback_props \<Rightarrow> fp \<Rightarrow> fp \<Rightarrow> spart \<Rightarrow> star_error + spart"
where
  "evolve_AGB Y stars log10_min_mass log10_max_mass0 sp =
     (let log10_max_mass = (if fp_lt (log10_SNII_min_mass_msun stars) log10_max_mass0
                            then log10_SNII_min_mass_msun stars else log10_max_mass0)
      in if fp_le log10_max_mass log10_min_mass then Inr sp
         else
           (let td = sp_to_distribute sp;
                metals = map (\<lambda>v. zero_negative (to_float v))
                           (AGB_metals Y sp log10_min_mass log10_max_mass);
                massv = zero_negative (to_float (AGB_mass Y sp log10_min_mass log10_max_mass));
                norm0 = to_float (AGB_norm0 Y sp log10_min_mass log10_max_mass);
                norm1 = f_add (f_add massv (metals ! chemistry_element_H Y))
                          (metals ! chemistry_element_He Y);
                norm_factor = f_mul (f_div norm0 norm1) (mass_init sp)
            in if fp_lt (Finite 0) norm1 then
                 (let td1 = td\<lparr>metal_mass :=
                              for_elements (chemistry_element_count Y)
                                (\<lambda>i v. f_add v (f_mul (metals ! i) norm_factor)) (metal_mass td),
                             mass_from_AGB :=
                               fold (\<lambda>i acc. f_add acc (f_mul (metals ! i) norm_factor))
                                 [0..<chemistry_element_count Y] (mass_from_AGB td)\<rparr>;
                      td2 = td1\<lparr>total_metal_mass :=
                                 f_add (total_metal_mass td1) (f_mul massv norm_factor),
                               metal_mass_from_AGB :=
                                 f_add (metal_mass_from_AGB td1) (f_mul massv norm_factor)\<rparr>;
                      td3 = td2\<lparr>mass := f_add (mass td2)
                                 (f_add (f_add (total_metal_mass td2) (metal_mass td2 ! 0))
                                    (metal_mass td2 ! 1))\<rparr>
                  in Inr (sp\<lparr>sp_to_distribute := td3\<rparr>))
               else Inl (Wrong_normalization norm1)))"

text \<open>
  \<^verbatim>\<open>compute_stellar_evolution\<close>. \<^verbatim>\<open>age\<close> is a \<^verbatim>\<open>float\<close> and \<^verbatim>\<open>dt\<close> a \<^verbatim>\<open>double\<close>; the two times in Gyr
  and the two logarithms are \<^verbatim>\<open>double\<close>, and are converted to \<^verbatim>\<open>float\<close> where they are passed
  to the three routines. The last assignment is the \<^verbatim>\<open>float\<close> sum
  \<^verbatim>\<open>(total_metal_mass + metal_mass[0]) + metal_mass[1]\<close>.
\<close>

definition compute_stellar_evolution ::
  "yield_env \<Rightarrow> feedback_props \<Rightarrow> spart \<Rightarrow> fp \<Rightarrow> fp \<Rightarrow> star_error + spart"
where
  "compute_stellar_evolution Y stars sp age dt =
     (let Gyr_in_cgs = Finite (3.155 * 10 ^ 16);
          dt_Gyr = d_div (d_mul dt (units_cgs_time Y)) Gyr_in_cgs;
          star_age_Gyr = d_div (d_mul age (units_cgs_time Y)) Gyr_in_cgs;
          log10_max_dying_mass_msun =
            log10_dying_mass_msun Y star_age_Gyr (metal_mass_fraction_total sp);
          log10_min_dying_mass_msun =
            log10_dying_mass_msun Y (d_add star_age_Gyr dt_Gyr) (metal_mass_fraction_total sp)
      in if fp_lt log10_max_dying_mass_msun log10_min_dying_mass_msun
           then Inl Min_dying_mass_greater_than_max
         else if fp_eq log10_min_dying_mass_msun log10_max_dying_mass_msun then Inr sp
         else
           (let sp1 = evolve_SNIa Y stars (to_float log10_min_dying_mass_msun)
                        (to_float log10_max_dying_mass_msun) sp
                        (to_float star_age_Gyr) (to_float dt_Gyr)
            in case evolve_SNII Y stars (to_float log10_min_dying_mass_msun)
                      (to_float log10_max_dying_mass_msun) sp1 of
                 Inl err \<Rightarrow> Inl err
               | Inr sp2 \<Rightarrow>
                   (case evolve_AGB Y stars (to_float log10_min_dying_mass_msun)
                           (to_float log10_max_dying_mass_msun) sp2 of
                      Inl err \<Rightarrow> Inl err
                    | Inr sp3 \<Rightarrow>
                        Inr (sp3\<lparr>sp_to_distribute := (sp_to_distribute sp3)
                               \<lparr>mass := f_add
                                  (f_add (total_metal_mass (sp_to_distribute sp3))
                                     (metal_mass (sp_to_distribute sp3) ! 0))
                                  (metal_mass (sp_to_distribute sp3) ! 1)\<rparr>\<rparr>))))"

text \<open>\<^verbatim>\<open>compute_SNe\<close> returns 0 on both branches; \<^verbatim>\<open>age + dt\<close> is a \<^verbatim>\<open>double\<close> sum.\<close>

definition compute_SNe :: "spart \<Rightarrow> feedback_props \<Rightarrow> fp \<Rightarrow> fp \<Rightarrow> fp" where
  "compute_SNe sp stars age dt =
     (if fp_le age (SNII_wind_delay stars) \<and> fp_lt (SNII_wind_delay stars) (d_add age dt)
      then Finite 0 else Finite 0)"

definition stars_evolve_spart ::
  "yield_env \<Rightarrow> feedback_props \<Rightarrow> spart \<Rightarrow> fp \<Rightarrow> fp \<Rightarrow> star_error + spart"
where
  "stars_evolve_spart Y stars sp current_time dt =
     (let star_age = f_sub current_time (birth_time sp);
          td = sp_to_distribute sp;
          td1 = td\<lparr>num_SNIa := Finite 0, num_SNII := Finite 0, mass := Finite 0\<rparr>;
          td2 = td1\<lparr>metal_mass :=
                   for_elements (chemistry_element_count Y) (\<lambda>i v. Finite 0) (metal_mass td1)\<rparr>;
          td3 = td2\<lparr>total_metal_mass := Finite 0, mass_from_AGB := Finite 0,
                   metal_mass_from_AGB := Finite 0, mass_from_SNII := Finite 0,
                   metal_mass_from_SNII := Finite 0, mass_from_SNIa := Finite 0,
                   metal_mass_from_SNIa := Finite 0, Fe_mass_from_SNIa := Finite 0\<rparr>
      in case compute_stellar_evolution Y stars (sp\<lparr>sp_to_distribute := td3\<rparr>) star_age dt of
           Inl err \<Rightarrow> Inl err
         | Inr sp' \<Rightarrow>
             Inr (sp'\<lparr>sp_to_distribute := (sp_to_distribute sp')
                       \<lparr>num_SNe := compute_SNe sp' stars star_age dt\<rparr>\<rparr>))"

section \<open>Inputs for the worked examples\<close>

definition params_example :: swift_params where
  "params_example =
     \<lparr>data = [\<lparr>pname = ''alpha'', pvalue = '' 1''\<rparr>, \<lparr>pname = ''beta'', pvalue = '' 2''\<rparr>,
              \<lparr>pname = ''gamma'', pvalue = '' 3''\<rparr>, \<lparr>pname = ''delta'', pvalue = '' 4''\<rparr>]\<rparr>"

text \<open>
  A kernel environment for the examples: the support multiplier 2, an inhibited time bin,
  and a wrap that brings a difference into \<open>[-L/2, L/2]\<close> by one period.
\<close>

definition nearest_example :: "real \<Rightarrow> real \<Rightarrow> real" where
  "nearest_example dx L = (if dx > L / 2 then dx - L else if dx < - (L / 2) then dx + L else dx)"

definition kernel_example :: kernel_env where
  "kernel_example = \<lparr>kernel_gamma = 2, time_bin_inhibited = 58, nearest = nearest_example\<rparr>"

definition los_example :: line_of_sight where
  "los_example = create_line_of_sight 5 5 simulation_x_axis simulation_y_axis simulation_z_axis 1 (10, 10, 10)"


definition parts_example :: "part list" where
  "parts_example =
     [\<lparr>p_x = (5, 5.5, 1), p_h = 1, p_time_bin = 1\<rparr>,
      \<lparr>p_x = (1, 1, 1), p_h = 1, p_time_bin = 1\<rparr>,
      \<lparr>p_x = (5, 5, 2), p_h = 1, p_time_bin = 58\<rparr>,
      \<lparr>p_x = (4, 4, 7), p_h = 1, p_time_bin = 1\<rparr>]"

text \<open>A local particle array with its companions, and the filler of a fresh buffer.\<close>

definition space_example :: "nat space" where
  "space_example =
     \<lparr>parts = parts_example, xparts = [10, 20, 30, 40], nr_parts = 4,
      space_periodic = 1, space_dim = (10, 10, 10)\<rparr>"

definition part_blank :: part where
  "part_blank = \<lparr>p_x = (0, 0, 0), p_h = 0, p_time_bin = 0\<rparr>"













text \<open>
  A star particle with three chemical elements, and an environment in which the time
  unit is one Gyr, the dying mass falls with age, the integrals are fixed numbers, and
  the identity stands in for the exponential. In the second environment the integrals
  of the type-II supernovae are large.
\<close>

definition yield_env_example :: yield_env where
  "yield_env_example =
     \<lparr>chemistry_element_count = 3, chemistry_element_H = 0, chemistry_element_He = 1,
      chemistry_element_Fe = 2, units_cgs_time = Finite (3.155 * 10 ^ 16),
      libm_exp = (\<lambda>v. v), M_LN10 = fp_round binary64 2.302585092994046,
      lifetime_in_Gyr = (\<lambda>m Z. Finite 1),
      log10_dying_mass_msun = (\<lambda>age Z. d_sub (Finite 2) age),
      SNII_number = (\<lambda>lo hi. Finite 5),
      SNII_metals = (\<lambda>sp lo hi. [Finite 1, Finite 2, Finite 3]),
      SNII_mass = (\<lambda>sp lo hi. Finite 4),
      SNII_norm0 = (\<lambda>sp lo hi. Finite 14),
      AGB_metals = (\<lambda>sp lo hi. [Finite 1, Finite 1, Finite 1]),
      AGB_mass = (\<lambda>sp lo hi. Finite 1),
      AGB_norm0 = (\<lambda>sp lo hi. Finite 3)\<rparr>"

definition yield_env_large :: yield_env where
  "yield_env_large =
     yield_env_example
       \<lparr>SNII_metals := (\<lambda>sp lo hi. [Finite 0, Finite 1, Finite 0]),
        SNII_mass := (\<lambda>sp lo hi. Finite (2 ^ 27)),
        SNII_norm0 := (\<lambda>sp lo hi. Finite (2 ^ 28))\<rparr>"

definition feedback_example :: feedback_props where
  "feedback_example =
     \<lparr>log10_SNII_min_mass_msun = Finite 0.75, log10_SNII_max_mass_msun = Finite 2,
      log10_SNIa_max_mass_msun = Finite 0.875, SNIa_efficiency = Finite 1,
      SNIa_timescale = Finite 2, const_solar_mass = Finite 1,
      yield_SNIa_total_metals_IMF_resampled = Finite 1,
      yield_SNIa_IMF_resampled = [Finite 1, Finite 1, Finite 1], SNII_wind_delay = Finite 1\<rparr>"

definition spart_example :: spart where
  "spart_example =
     \<lparr>birth_time = Finite 0, mass_init = Finite 1, metal_mass_fraction_total = Finite 0.0625,
      metal_mass_fraction = [Finite 0.75, Finite 0.1875, Finite 0.0625],
      sp_to_distribute =
        \<lparr>num_SNIa = Finite 9, num_SNII = Finite 9, num_SNe = Finite 9, mass = Finite 9,
         metal_mass = [Finite 9, Finite 9, Finite 9],
         total_metal_mass = Finite 9, mass_from_AGB = Finite 9, metal_mass_from_AGB = Finite 9,
         mass_from_SNII = Finite 9, metal_mass_from_SNII = Finite 9, mass_from_SNIa = Finite 9,
         metal_mass_from_SNIa = Finite 9, Fe_mass_from_SNIa = Finite 9\<rparr>\<rparr>"

definition spart_heavy :: spart where
  "spart_heavy = spart_example\<lparr>mass_init := Finite (2 ^ 127)\<rparr>"

text \<open>
  A file group with one dataset, whose row \<open>r\<close> holds the bytes \<open>10 r, 10 r + 1, ...\<close>; three
  field descriptions (one present in the group, two absent) for records of 16 bytes with
  the field at address 100; and a memory filled with the byte 255.
\<close>

definition io_env_example :: "(nat, nat) io_env" where
  "io_env_example =
     \<lparr>sizeOfType = (\<lambda>t. 4), isDoublePrecision = (\<lambda>t. False),
      units_conversion_factor = (\<lambda>u. 1), multiply_buffer = (\<lambda>dbl factor n buf. buf),
      malloc_fails = (\<lambda>n. False)\<rparr>"

definition h5_dataset_example :: h5_dataset where
  "h5_dataset_example =
     \<lparr>ds_row = (\<lambda>r b. of_nat (10 * r + b)), ds_open_fails = False,
      ds_get_type_fails = False, ds_read_fails = False\<rparr>"

definition h5_group_example :: h5_group where
  "h5_group_example =
     \<lparr>grp_link_error = (\<lambda>name. False),
      grp_dataset = Map.empty(''Coordinates'' \<mapsto> h5_dataset_example)\<rparr>"

definition io_props_present :: "(nat, nat) io_props" where
  "io_props_present =
     \<lparr>io_name = ''Coordinates'', io_type = 0, io_dimension = 2, io_importance = COMPULSORY,
      io_units = 0, io_field = 100, io_partSize = 16\<rparr>"

definition io_props_optional :: "(nat, nat) io_props" where
  "io_props_optional =
     \<lparr>io_name = ''Masses'', io_type = 0, io_dimension = 2, io_importance = OPTIONAL,
      io_units = 0, io_field = 100, io_partSize = 16\<rparr>"

definition io_props_compulsory :: "(nat, nat) io_props" where
  "io_props_compulsory =
     \<lparr>io_name = ''Velocities'', io_type = 0, io_dimension = 2, io_importance = COMPULSORY,
      io_units = 0, io_field = 100, io_partSize = 16\<rparr>"

definition memory_example :: memory where
  "memory_example = (\<lambda>a. 255)"

chapter \<open>Properties\<close>

section \<open>Floating-point arithmetic\<close>

lemmas fp_eval = fp_round_def fp_nearest_def fp_quantum_def binary64_def binary32_def
  ilog2.simps round_half_even_def fp_sub_def fp_of_int_def is_fp_def

lemma p2_pos [simp]: "0 < (2::real) powi e"
  by simp

lemma p2_Suc: "(2::real) powi (e + 1) = 2 * 2 powi e"
  by (simp add: power_int_add)

lemma p2_pred: "(2::real) powi (e - 1) = 2 powi e / 2"
  by (simp add: power_int_diff)

lemma p2_mono: "a \<le> b \<Longrightarrow> (2::real) powi a \<le> 2 powi b"
  by (rule power_int_increasing) simp_all

lemma p2_strict_mono: "a < b \<Longrightarrow> (2::real) powi a < 2 powi b"
  by (rule power_int_strict_increasing) simp_all

lemma p2_le_D: "(2::real) powi a \<le> 2 powi b \<Longrightarrow> a \<le> b"
  using p2_strict_mono [of b a] by (cases "a \<le> b") simp_all

lemma p2_less_D: "(2::real) powi a < 2 powi b \<Longrightarrow> a < b"
  using p2_mono [of b a] by (cases "a < b") simp_all

lemma p2_nat: "0 \<le> e \<Longrightarrow> (2::real) powi e = of_int (2 ^ nat e)"
  by (simp add: power_int_def)

lemma ilog2_bounds:
  "0 < x \<Longrightarrow> 2 powi (ilog2 x) \<le> x \<and> x < 2 powi (ilog2 x + 1)"
proof (induction x rule: ilog2.induct)
  case (1 x)
  show ?case
  proof (cases "2 \<le> x")
    case True
    then have e: "ilog2 x = ilog2 (x / 2) + 1" using 1 by (subst ilog2.simps) simp
    have "2 powi (ilog2 (x / 2)) \<le> x / 2 \<and> x / 2 < 2 powi (ilog2 (x / 2) + 1)"
      using "1.IH"(1) "1.prems" True by simp
    then show ?thesis unfolding e p2_Suc by simp
  next
    case False
    show ?thesis
    proof (cases "x < 1")
      case True
      then have e: "ilog2 x = ilog2 (2 * x) - 1" using 1 False by (subst ilog2.simps) simp
      have "2 powi (ilog2 (2 * x)) \<le> 2 * x \<and> 2 * x < 2 powi (ilog2 (2 * x) + 1)"
        using "1.IH"(2) "1.prems" True False by simp
      then show ?thesis unfolding e by (simp add: p2_Suc p2_pred)
    next
      case b: False
      then have "ilog2 x = 0" using 1 False by (subst ilog2.simps) simp
      then show ?thesis using False b by simp
    qed
  qed
qed

lemma ilog2_unique:
  assumes "2 powi k \<le> x" "x < 2 powi (k + 1)"
  shows "ilog2 x = k"
proof -
  have x: "0 < x" using assms(1) p2_pos [of k] by linarith
  from ilog2_bounds [OF x] have a: "2 powi (ilog2 x) \<le> x" and b: "x < 2 powi (ilog2 x + 1)"
    by simp_all
  have "(2::real) powi (ilog2 x) < 2 powi (k + 1)" using a assms(2) by linarith
  then have "ilog2 x < k + 1" by (rule p2_less_D)
  moreover have "(2::real) powi k < 2 powi (ilog2 x + 1)" using b assms(1) by linarith
  then have "k < ilog2 x + 1" by (rule p2_less_D)
  ultimately show ?thesis by simp
qed

lemma ilog2_mono: "0 < x \<Longrightarrow> x \<le> y \<Longrightarrow> ilog2 x \<le> ilog2 y"
proof -
  assume x: "0 < x" and xy: "x \<le> y"
  then have y: "0 < y" by simp
  have "(2::real) powi (ilog2 x) \<le> x" using ilog2_bounds [OF x] by simp
  also have "x \<le> y" by fact
  also have "y < 2 powi (ilog2 y + 1)" using ilog2_bounds [OF y] by simp
  finally have "ilog2 x < ilog2 y + 1" by (rule p2_less_D)
  then show ?thesis by simp
qed

lemma round_half_even_of_int [simp]: "round_half_even (of_int n) = n"
  by (simp add: round_half_even_def)

lemma round_half_even_lower: "\<lfloor>y\<rfloor> \<le> round_half_even y"
  by (simp add: round_half_even_def)

lemma round_half_even_upper: "round_half_even y \<le> \<lfloor>y\<rfloor> + 1"
  by (simp add: round_half_even_def)

lemma round_half_even_mono:
  assumes "x \<le> y"
  shows "round_half_even x \<le> round_half_even y"
proof (cases "\<lfloor>x\<rfloor> = \<lfloor>y\<rfloor>")
  case True
  have "x - of_int \<lfloor>x\<rfloor> \<le> y - of_int \<lfloor>y\<rfloor>" using assms True by simp
  then show ?thesis unfolding round_half_even_def using True by auto
next
  case False
  have "\<lfloor>x\<rfloor> \<le> \<lfloor>y\<rfloor>" using assms by (rule floor_mono)
  with False have "\<lfloor>x\<rfloor> + 1 \<le> \<lfloor>y\<rfloor>" by simp
  then show ?thesis
    using round_half_even_upper [of x] round_half_even_lower [of y] by linarith
qed

lemma round_half_even_le: "y \<le> of_int n \<Longrightarrow> round_half_even y \<le> n"
  using round_half_even_mono [of y "of_int n"] by simp

lemma round_half_even_ge: "of_int n \<le> y \<Longrightarrow> n \<le> round_half_even y"
  using round_half_even_mono [of "of_int n" y] by simp

lemma fp_quantum_pos [simp]: "0 < fp_quantum F x"
  by (simp add: fp_quantum_def)

lemma p2_split: "c = a + b \<Longrightarrow> (2::real) powi c = 2 powi a * 2 powi b"
  by (simp add: power_int_add)

lemma fp_quantum_nz [simp]: "fp_quantum F x \<noteq> 0"
  by (simp add: fp_quantum_def)

lemma round_half_even_0 [simp]: "round_half_even 0 = 0"
  using round_half_even_of_int [of 0] by simp

lemma fp_scaled_nonneg: "0 \<le> \<bar>x\<bar> / fp_quantum F x"
  by (intro divide_nonneg_pos) simp_all

lemma fp_rounded_nonneg: "0 \<le> round_half_even (\<bar>x\<bar> / fp_quantum F x)"
  using round_half_even_ge [of 0 "\<bar>x\<bar> / fp_quantum F x"] fp_scaled_nonneg [of x F] by simp

lemma fp_nearest_abs [simp]: "fp_nearest F (- x) = fp_nearest F x"
  by (simp add: fp_nearest_def fp_quantum_def)

lemma fp_nearest_nonneg: "0 \<le> fp_nearest F x"
  using fp_rounded_nonneg [of x F] by (simp add: fp_nearest_def less_imp_le)

text \<open>The scaled magnitude is below \<open>2 ^ precision\<close>.\<close>

lemma fp_scaled_upper:
  assumes "0 < x"
  shows "x / fp_quantum F x < 2 ^ precision F"
proof -
  let ?e = "max (ilog2 x) (1 - emax F)"
  have "x < 2 powi (ilog2 x + 1)" using ilog2_bounds [OF assms] by simp
  also have "\<dots> \<le> 2 powi (?e + 1)" by (rule p2_mono) simp
  also have "\<dots> = 2 powi (?e - int (precision F) + 1) * 2 powi (int (precision F))"
    by (rule p2_split) simp
  finally have "x < fp_quantum F x * 2 ^ precision F"
    using assms by (simp add: fp_quantum_def)
  then show ?thesis by (simp add: pos_divide_less_eq mult.commute)
qed

lemma fp_rounded_upper:
  assumes "0 < x"
  shows "round_half_even (x / fp_quantum F x) \<le> 2 ^ precision F"
proof -
  have "x / fp_quantum F x \<le> of_int (2 ^ precision F)"
    using fp_scaled_upper [OF assms, of F] by simp
  then show ?thesis by (rule round_half_even_le)
qed

lemma fp_nearest_upper:
  assumes "0 < x"
  shows "fp_nearest F x \<le> 2 powi (max (ilog2 x) (1 - emax F) + 1)"
proof -
  let ?e = "max (ilog2 x) (1 - emax F)"
  have "of_int (round_half_even (x / fp_quantum F x)) \<le> (2::real) ^ precision F"
    using fp_rounded_upper [OF assms, of F] by (metis of_int_le_iff of_int_numeral of_int_power)
  then have "fp_nearest F x \<le> 2 ^ precision F * fp_quantum F x"
    using assms by (simp add: fp_nearest_def)
  also have "\<dots> = 2 powi (int (precision F)) * 2 powi (?e - int (precision F) + 1)"
    using assms by (simp add: fp_quantum_def)
  also have "\<dots> = 2 powi (?e + 1)"
    by (rule p2_split [symmetric]) simp
  finally show ?thesis .
qed

lemma fp_nearest_lower:
  assumes "0 < x" and "1 - emax F \<le> ilog2 x" and "0 < precision F"
  shows "2 powi (ilog2 x) \<le> fp_nearest F x"
proof -
  have e: "max (ilog2 x) (1 - emax F) = ilog2 x" using assms(2) by simp
  have q: "fp_quantum F x = 2 powi (ilog2 x - int (precision F) + 1)"
    using assms(1) by (simp add: fp_quantum_def e)
  have s: "(2::real) powi (ilog2 x) = 2 powi (int (precision F) - 1) * fp_quantum F x"
    unfolding q by (rule p2_split) simp
  have n: "(2::real) powi (int (precision F) - 1) = of_int (2 ^ (precision F - 1))"
    using assms(3) by (simp add: power_int_def nat_diff_distrib)
  have "2 powi (ilog2 x) \<le> x" using ilog2_bounds [OF assms(1)] by simp
  then have "of_int (2 ^ (precision F - 1)) \<le> x / fp_quantum F x"
    unfolding s n by (simp add: pos_le_divide_eq)
  then have "2 ^ (precision F - 1) \<le> round_half_even (x / fp_quantum F x)"
    by (rule round_half_even_ge)
  then have "(of_int (2 ^ (precision F - 1)) :: real) \<le> of_int (round_half_even (x / fp_quantum F x))"
    by (simp only: of_int_le_iff)
  then have "of_int (2 ^ (precision F - 1)) * fp_quantum F x \<le> fp_nearest F x"
    using assms(1) by (simp add: fp_nearest_def)
  then show ?thesis unfolding s n .
qed

lemma fp_nearest_mono:
  assumes "0 < x" and "x \<le> y" and "0 < precision F"
  shows "fp_nearest F x \<le> fp_nearest F y"
proof -
  have y: "0 < y" using assms by simp
  let ?ex = "max (ilog2 x) (1 - emax F)" and ?ey = "max (ilog2 y) (1 - emax F)"
  have le: "?ex \<le> ?ey" using ilog2_mono [OF assms(1,2)] by simp
  show ?thesis
  proof (cases "?ex = ?ey")
    case True
    then have q: "fp_quantum F x = fp_quantum F y"
      using assms(1) y by (simp add: fp_quantum_def)
    have "x / fp_quantum F y \<le> y / fp_quantum F y"
      using assms(2) by (intro divide_right_mono) (simp_all add: less_imp_le)
    then have "round_half_even (x / fp_quantum F y) \<le> round_half_even (y / fp_quantum F y)"
      by (rule round_half_even_mono)
    then have "(of_int (round_half_even (x / fp_quantum F y)) :: real) \<le>
               of_int (round_half_even (y / fp_quantum F y))"
      by (simp only: of_int_le_iff)
    then show ?thesis using assms(1) y by (simp add: fp_nearest_def q)
  next
    case False
    with le have lt: "?ex < ?ey" by linarith
    then have ey: "1 - emax F \<le> ilog2 y" and ey': "?ey = ilog2 y"
      by linarith+
    have "fp_nearest F x \<le> 2 powi (?ex + 1)" by (rule fp_nearest_upper [OF assms(1)])
    also have "\<dots> \<le> 2 powi (ilog2 y)" using lt ey' by (intro p2_mono) linarith
    also have "\<dots> \<le> fp_nearest F y" by (rule fp_nearest_lower [OF y ey assms(3)])
    finally show ?thesis .
  qed
qed

text \<open>A number \<open>m * 2 ^ k\<close> with at most \<open>precision\<close> bits and an exponent in range is kept.\<close>

lemma fp_nearest_exact:
  assumes m: "0 < m" "m \<le> 2 ^ precision F"
      and k: "1 - emax F - int (precision F) + 1 \<le> k"
      and p: "0 < precision F"
  shows "fp_nearest F (of_int m * 2 powi k) = of_int m * 2 powi k"
proof -
  let ?x = "of_int m * 2 powi k :: real"
  let ?e = "max (ilog2 ?x) (1 - emax F)"
  have x: "0 < ?x" using m by simp
  have q: "fp_quantum F ?x = 2 powi (?e - int (precision F) + 1)"
    using x by (simp add: fp_quantum_def)
  have "\<exists>N. ?x / fp_quantum F ?x = of_int N"
  proof (cases "?e - int (precision F) + 1 \<le> k")
    case True
    have "?x / fp_quantum F ?x = of_int m * 2 powi (k - (?e - int (precision F) + 1))"
      unfolding q by (simp add: power_int_diff)
    also have "\<dots> = of_int (m * 2 ^ nat (k - (?e - int (precision F) + 1)))"
      using True by (simp add: p2_nat)
    finally show ?thesis by blast
  next
    case False
    then have e: "?e = ilog2 ?x" using k by simp
    have "2 powi (ilog2 ?x) \<le> ?x" using ilog2_bounds [OF x] by simp
    also have xu: "?x \<le> 2 powi (int (precision F)) * 2 powi k"
    proof -
      have "(of_int m :: real) \<le> 2 ^ precision F"
        using m(2) by (metis of_int_le_iff of_int_numeral of_int_power)
      then show ?thesis by simp
    qed
    also have "\<dots> = 2 powi (int (precision F) + k)" by (rule p2_split [symmetric]) simp
    finally have "ilog2 ?x \<le> int (precision F) + k" by (rule p2_le_D)
    with False e have ek: "ilog2 ?x = int (precision F) + k" by simp
    have "?x = 2 powi (int (precision F) + k)"
    proof -
      have "2 powi (int (precision F) + k) \<le> ?x"
        using ilog2_bounds [OF x] ek by simp
      moreover have "2 powi (int (precision F)) * 2 powi k = (2::real) powi (int (precision F) + k)"
        by (rule p2_split [symmetric]) simp
      then have "?x \<le> 2 powi (int (precision F) + k)"
        using xu by simp
      ultimately show ?thesis by simp
    qed
    moreover have "?e = int (precision F) + k" using e ek by (simp only:)
    then have "fp_quantum F ?x = 2 powi (k + 1)" unfolding q by simp
    ultimately have "?x / fp_quantum F ?x = 2 powi (int (precision F) + k) / 2 powi (k + 1)"
      by (simp only:)
    also have "\<dots> = 2 powi (int (precision F) + k - (k + 1))"
      by (rule power_int_diff [symmetric]) simp
    also have "\<dots> = 2 powi (int (precision F) - 1)"
      by simp
    also have "\<dots> = of_int (2 ^ (precision F - 1))"
      using p by (simp add: power_int_def nat_diff_distrib)
    finally show ?thesis by blast
  qed
  then obtain N where N: "?x / fp_quantum F ?x = of_int N" by blast
  then have "?x = of_int N * fp_quantum F ?x" by (simp add: field_simps)
  moreover have "fp_nearest F ?x = of_int N * fp_quantum F ?x"
    using x N by (simp add: fp_nearest_def)
  ultimately show ?thesis by simp
qed

lemma fp_nearest_idem:
  assumes "0 < x" and "0 < precision F"
  shows "fp_nearest F (fp_nearest F x) = fp_nearest F x"
proof -
  let ?N = "round_half_even (x / fp_quantum F x)"
  let ?k = "max (ilog2 x) (1 - emax F) - int (precision F) + 1"
  have v: "fp_nearest F x = of_int ?N * 2 powi ?k"
    using assms(1) by (simp add: fp_nearest_def fp_quantum_def)
  have N0: "0 \<le> ?N" using fp_rounded_nonneg [of x F] assms(1) by simp
  show ?thesis
  proof (cases "?N = 0")
    case True
    then have z: "fp_nearest F x = 0" using v by simp
    show ?thesis unfolding z by (simp add: fp_nearest_def)
  next
    case False
    with N0 have "0 < ?N" by simp
    moreover have "?N \<le> 2 ^ precision F" by (rule fp_rounded_upper [OF assms(1)])
    moreover have "1 - emax F - int (precision F) + 1 \<le> ?k" by simp
    ultimately show ?thesis unfolding v using assms(2) by (rule fp_nearest_exact)
  qed
qed

lemma fp_round_0 [simp]: "fp_round F 0 = Finite 0"
  by (simp add: fp_round_def)

lemma fp_round_pos:
  "0 < x \<Longrightarrow> fp_round F x =
     (if 2 powi (emax F + 1) \<le> fp_nearest F x then PInf else Finite (fp_nearest F x))"
  by (simp add: fp_round_def)

lemma fp_round_minus: "fp_round F (- x) = fp_neg (fp_round F x)"
  by (simp add: fp_round_def)

lemma fp_le_trans: "fp_le a b \<Longrightarrow> fp_le b c \<Longrightarrow> fp_le a c"
  by (cases a; cases b; cases c) simp_all

lemma fp_le_neg: "fp_le (fp_neg a) (fp_neg b) = fp_le b a"
  by (cases a; cases b) simp_all

lemma fp_round_nonneg: "0 \<le> x \<Longrightarrow> fp_le (Finite 0) (fp_round F x)"
  using fp_nearest_nonneg [of F x] by (cases "x = 0") (simp_all add: fp_round_pos)

lemma fp_round_nonpos: "x \<le> 0 \<Longrightarrow> fp_le (fp_round F x) (Finite 0)"
  using fp_round_nonneg [of "- x" F] fp_le_neg [of "Finite 0" "fp_round F x"]
  by (simp add: fp_round_minus)

lemma fp_round_mono_pos:
  assumes "0 < x" "x \<le> y" "0 < precision F"
  shows "fp_le (fp_round F x) (fp_round F y)"
proof -
  have y: "0 < y" using assms by simp
  have "fp_nearest F x \<le> fp_nearest F y" by (rule fp_nearest_mono [OF assms])
  then show ?thesis using assms(1) y by (simp add: fp_round_pos)
qed

lemma fp_round_mono:
  assumes "x \<le> y" and "0 < precision F"
  shows "fp_le (fp_round F x) (fp_round F y)"
proof -
  consider "0 < x" | "y < 0" | "x \<le> 0" "0 \<le> y" by linarith
  then show ?thesis
  proof cases
    case 1
    then show ?thesis using assms by (simp add: fp_round_mono_pos)
  next
    case 2
    then have "fp_le (fp_round F (- y)) (fp_round F (- x))"
      using assms by (intro fp_round_mono_pos) simp_all
    then show ?thesis by (simp add: fp_round_minus fp_le_neg)
  next
    case 3
    then show ?thesis
      using fp_le_trans [OF fp_round_nonpos fp_round_nonneg] by simp
  qed
qed

lemma fp_round_idem:
  assumes "fp_round F x = Finite v" and "0 < precision F"
  shows "fp_round F v = Finite v"
proof -
  have pos: "fp_round F v = Finite v" if "0 < x" "fp_round F x = Finite v" for x v
  proof -
    from that have v: "v = fp_nearest F x" and b: "\<not> 2 powi (emax F + 1) \<le> fp_nearest F x"
      by (simp_all add: fp_round_pos split: if_splits)
    have i: "fp_nearest F v = v" unfolding v by (rule fp_nearest_idem [OF that(1) assms(2)])
    show ?thesis
    proof (cases "v = 0")
      case True
      then show ?thesis by simp
    next
      case False
      then have "0 < v" using fp_nearest_nonneg [of F x] v by simp
      then show ?thesis using i b v by (simp add: fp_round_pos)
    qed
  qed
  consider "x = 0" | "0 < x" | "x < 0" by linarith
  then show ?thesis
  proof cases
    case 1
    then show ?thesis using assms by simp
  next
    case 2
    then show ?thesis using pos assms(1) by simp
  next
    case 3
    have "fp_round F (- x) = Finite (- v)"
      using assms(1) by (simp add: fp_round_minus)
    then have "fp_round F (- v) = Finite (- v)" using pos [of "- x" "- v"] 3 by simp
    then show ?thesis using fp_round_minus [of F v] by (cases "fp_round F v") simp_all
  qed
qed

lemma fp_round_exact:
  assumes "x = of_int m * 2 powi k" and "\<bar>m\<bar> \<le> 2 ^ precision F"
      and "1 - emax F - int (precision F) + 1 \<le> k" and "\<bar>x\<bar> < 2 powi (emax F + 1)"
      and "0 < precision F"
  shows "fp_round F x = Finite x"
proof -
  have pos: "fp_round F (of_int m * 2 powi k) = Finite (of_int m * 2 powi k)"
    if "0 < m" "m \<le> 2 ^ precision F" "of_int m * 2 powi k < (2::real) powi (emax F + 1)" for m
  proof -
    have "fp_nearest F (of_int m * 2 powi k) = of_int m * 2 powi k"
      by (rule fp_nearest_exact [OF that(1,2) assms(3,5)])
    moreover have "0 < (of_int m * 2 powi k :: real)" using that(1) by simp
    ultimately show ?thesis using that(3) by (simp add: fp_round_pos)
  qed
  consider "m = 0" | "0 < m" | "m < 0" by linarith
  then show ?thesis
  proof cases
    case 1
    then show ?thesis using assms(1) by simp
  next
    case 2
    then show ?thesis using pos [of m] assms by (simp add: abs_mult)
  next
    case 3
    then have "fp_round F (of_int (- m) * 2 powi k) = Finite (of_int (- m) * 2 powi k)"
      using assms by (intro pos) (simp_all add: abs_mult)
    then have "fp_round F (- x) = Finite (- x)" using assms(1) by simp
    then show ?thesis using fp_round_minus [of F x] by (cases "fp_round F x") simp_all
  qed
qed

text \<open>Integers of at most \<open>precision\<close> bits are values of the format.\<close>

lemma fp_round_of_int:
  assumes "\<bar>m\<bar> \<le> 2 ^ precision F" and "int (precision F) \<le> emax F" and "0 < precision F"
  shows "fp_round F (of_int m) = Finite (of_int m)"
proof -
  have "\<bar>of_int m :: real\<bar> \<le> 2 ^ precision F"
    using assms(1) by (metis of_int_abs of_int_le_iff of_int_numeral of_int_power)
  also have "\<dots> = 2 powi (int (precision F))" by simp
  also have "\<dots> < 2 powi (emax F + 1)" using assms(2) by (intro p2_strict_mono) simp
  finally have b: "\<bar>of_int m :: real\<bar> < 2 powi (emax F + 1)" .
  show ?thesis
    by (rule fp_round_exact [where m = m and k = 0]) (use assms b in simp_all)
qed

lemma fp_le_refl_round [simp]: "fp_le (fp_round F x) (fp_round F x)"
  by (cases "fp_round F x") (simp_all add: fp_round_def split: if_splits)

lemma fp_eq_same: "fp_eq a a = (a \<noteq> NaN)"
  by (cases a) simp_all

section \<open>The parameter store\<close>

lemma strcmp_eq_0_iff: "strcmp a b = 0 \<longleftrightarrow> a = b"
  by (induction a b rule: strcmp.induct) auto

lemma getParam_loop_find:
  "i \<le> MAX_NO_OF_PARAMS \<Longrightarrow> length (data params) = MAX_NO_OF_PARAMS \<Longrightarrow>
   getParam_loop params name retParam i =
     (case find (\<lambda>p. pname p \<noteq> name) (drop i (data params)) of
        None \<Rightarrow> retParam | Some p \<Rightarrow> atoi (pvalue p))"
proof (induction params name retParam i rule: getParam_loop.induct)
  case (1 params name retParam i)
  show ?case
  proof (cases "i < MAX_NO_OF_PARAMS")
    case True
    then have d: "drop i (data params) = data params ! i # drop (i + 1) (data params)"
      using "1.prems" by (simp add: Cons_nth_drop_Suc)
    show ?thesis
    proof (cases "strcmp name (pname (data params ! i)) = 0")
      case z: True
      then have "pname (data params ! i) = name" by (simp add: strcmp_eq_0_iff)
      with True z "1.IH" "1.prems" d show ?thesis
        by (subst getParam_loop.simps) simp
    next
      case nz: False
      then have "pname (data params ! i) \<noteq> name" by (auto simp: strcmp_eq_0_iff)
      with True nz d show ?thesis
        by (subst getParam_loop.simps) simp
    qed
  next
    case False
    with "1.prems" have "i = MAX_NO_OF_PARAMS" by simp
    with "1.prems" show ?thesis
      by (subst getParam_loop.simps) simp
  qed
qed

text \<open>
  Claim C9. For every store and every query name, \<^verbatim>\<open>getParam\<close> scans the stored
  parameters in index order and assigns to \<^verbatim>\<open>*retParam\<close> the \<^verbatim>\<open>atoi\<close> of the value of the
  first parameter whose name differs from the query (the first for which \<^verbatim>\<open>strcmp\<close> is
  not zero); \<^verbatim>\<open>*retParam\<close> keeps its value only when every stored name equals the query;
  a parameter whose name equals the query is never the one selected.
\<close>

theorem getParam_selects_first_differing_name:
  assumes "length (data params) = MAX_NO_OF_PARAMS"
  shows "getParam params name retParam =
           (case find (\<lambda>p. pname p \<noteq> name) (data params) of
              None \<Rightarrow> retParam
            | Some p \<Rightarrow> atoi (pvalue p))
         \<and> (find (\<lambda>p. pname p \<noteq> name) (data params) = None
              \<longleftrightarrow> (\<forall>p \<in> set (data params). pname p = name))
         \<and> (\<forall>p. find (\<lambda>p. pname p \<noteq> name) (data params) = Some p
              \<longrightarrow> strcmp name (pname p) \<noteq> 0 \<and> pname p \<noteq> name)"
proof -
  have "getParam params name retParam =
           (case find (\<lambda>p. pname p \<noteq> name) (data params) of
              None \<Rightarrow> retParam
            | Some p \<Rightarrow> atoi (pvalue p))"
    using getParam_loop_find [of 0 params name retParam] assms by (simp add: getParam_def)
  moreover have "find (\<lambda>p. pname p \<noteq> name) (data params) = None
              \<longleftrightarrow> (\<forall>p \<in> set (data params). pname p = name)"
    by (auto simp: find_None_iff)
  moreover have "\<forall>p. find (\<lambda>p. pname p \<noteq> name) (data params) = Some p
              \<longrightarrow> strcmp name (pname p) \<noteq> 0 \<and> pname p \<noteq> name"
    by (auto simp: find_Some_iff strcmp_eq_0_iff)
  ultimately show ?thesis by blast
qed

theorem getParam_selects_first_differing_name_witness:
  "length (data params_example) = MAX_NO_OF_PARAMS \<and>
   getParam params_example ''alpha'' 0 = 2 \<and>
   getParam params_example ''beta'' 0 = 1"
proof -
  have len: "length (data params_example) = MAX_NO_OF_PARAMS"
    by (simp add: params_example_def MAX_NO_OF_PARAMS_def)
  show ?thesis
    using len getParam_selects_first_differing_name [OF len, of "''alpha''" 0]
      getParam_selects_first_differing_name [OF len, of "''beta''" 0]
    by (simp add: params_example_def atoi_def isspace_def isdigit_def)
qed

section \<open>Dividing the particles among the ranks\<close>

lemma wrap_signed_id:
  "- (2 ^ (w - 1)) \<le> v \<Longrightarrow> v < 2 ^ (w - 1) \<Longrightarrow> 0 < w \<Longrightarrow> wrap_signed w v = v"
proof -
  assume a: "- (2 ^ (w - 1)) \<le> v" and b: "v < 2 ^ (w - 1)" and w: "0 < w"
  have p: "(2::int) ^ w = 2 * 2 ^ (w - 1)"
    using w by (cases w) simp_all
  have "0 \<le> v + 2 ^ (w - 1)" and "v + 2 ^ (w - 1) < 2 ^ w"
    using a b p by simp_all
  then have "(v + 2 ^ (w - 1)) mod 2 ^ w = v + 2 ^ (w - 1)"
    by simp
  then show ?thesis by (simp add: wrap_signed_def)
qed

lemma c_long_long_id: "0 \<le> v \<Longrightarrow> v < 2 ^ 63 \<Longrightarrow> c_long_long v = v"
  using wrap_signed_id [of 64 v] by (simp add: c_long_long_def)

lemma c_int_id: "0 \<le> v \<Longrightarrow> v < 2 ^ 31 \<Longrightarrow> c_int v = v"
  using wrap_signed_id [of 32 v] by (simp add: c_int_def)

lemma c_size_t_id: "0 \<le> v \<Longrightarrow> v < 2 ^ 63 \<Longrightarrow> int (c_size_t v) = v"
  by (simp add: c_size_t_def)

lemma c_div_nonneg: "0 \<le> a \<Longrightarrow> 0 < b \<Longrightarrow> c_div a b = a div b"
  by (simp add: c_div_def)

text \<open>
  When the largest product \<open>P * T\<close> fits a \<^verbatim>\<open>long long\<close>, no operation of the two
  assignments wraps.
\<close>

lemma ic_product_bound:
  assumes "0 \<le> r" "r \<le> P" "0 \<le> T" "P * T < 2 ^ 63"
  shows "0 \<le> r * T \<and> r * T < (2::int) ^ 63"
proof -
  have "r * T \<le> P * T" using assms by (simp add: mult_right_mono)
  then show ?thesis using assms by simp
qed

lemma ic_quotient_bound:
  assumes "0 \<le> a" "a < (2::int) ^ 63" "1 \<le> P"
  shows "0 \<le> a div P \<and> a div P < 2 ^ 63"
proof -
  have "a div P \<le> a div 1" using assms by (intro zdiv_mono2) simp_all
  then have "a div P \<le> a" by simp
  moreover have "0 \<le> a div P" using assms by (simp add: pos_imp_zdiv_nonneg_iff)
  ultimately show ?thesis using assms by simp
qed

lemma ic_offset_nonneg_eq:
  assumes "0 \<le> r" "r \<le> P" "0 \<le> T" "1 \<le> P" "P * T < 2 ^ 63"
  shows "ic_offset r P T = (r * T) div P"
proof -
  have a: "0 \<le> r * T \<and> r * T < 2 ^ 63" using ic_product_bound assms by simp
  have b: "0 \<le> (r * T) div P \<and> (r * T) div P < 2 ^ 63"
    using ic_quotient_bound a assms by simp
  show ?thesis using a b assms by (simp add: ic_offset_def c_long_long_id c_div_nonneg)
qed

lemma ic_quotient_mono:
  assumes "0 \<le> r" "r \<le> s" "0 \<le> T" "1 \<le> (P::int)"
  shows "(r * T) div P \<le> (s * T) div P"
proof -
  have "r * T \<le> s * T" using assms by (simp add: mult_right_mono)
  then show ?thesis using assms by (simp add: zdiv_mono1)
qed

lemma ic_N_eq:
  assumes "0 \<le> r" "r < P" "0 \<le> T" "1 \<le> P" "P < 2 ^ 31" "P * T < 2 ^ 63"
  shows "int (ic_N r P T) = ((r + 1) * T) div P - (r * T) div P"
proof -
  have r1: "c_int (r + 1) = r + 1" using assms by (simp add: c_int_id)
  have a: "0 \<le> (r + 1) * T \<and> (r + 1) * T < 2 ^ 63"
    using ic_product_bound [of "r + 1" P T] assms by simp
  have b: "0 \<le> ((r + 1) * T) div P \<and> ((r + 1) * T) div P < 2 ^ 63"
    using ic_quotient_bound a assms by simp
  have c: "(r * T) div P \<le> ((r + 1) * T) div P"
    using ic_quotient_mono [of r "r + 1" T P] assms by simp
  have d: "0 \<le> (r * T) div P"
    using assms by (simp add: pos_imp_zdiv_nonneg_iff)
  have e: "0 \<le> ((r + 1) * T) div P - (r * T) div P \<and>
           ((r + 1) * T) div P - (r * T) div P < 2 ^ 63"
    using b c d by simp
  have o: "ic_offset r P T = (r * T) div P"
    using ic_offset_nonneg_eq [of r P T] assms by simp
  have q: "c_long_long (c_div (c_long_long ((r + 1) * T)) P) = ((r + 1) * T) div P"
    using a b assms by (simp add: c_long_long_id c_div_nonneg)
  show ?thesis
    unfolding ic_N_def r1 q o using e by (simp add: c_long_long_id c_size_t_id)
qed

lemma ic_slice_eq:
  assumes "0 \<le> r" "r < P" "0 \<le> T" "1 \<le> P" "P < 2 ^ 31" "P * T < 2 ^ 63"
  shows "ic_slice r P T = {(r * T) div P ..< ((r + 1) * T) div P}"
  using ic_N_eq [OF assms] ic_offset_nonneg_eq [of r P T] assms
  by (simp add: ic_slice_def)

lemma ic_slices_upto:
  assumes "0 \<le> T" "1 \<le> P" "P < 2 ^ 31" "P * T < 2 ^ 63"
  shows "int n \<le> P \<Longrightarrow> (\<Union>r \<in> {0 ..< int n}. ic_slice r P T) = {0 ..< (int n * T) div P}"
proof (induction n)
  case 0
  show ?case by simp
next
  case (Suc n)
  have n: "0 \<le> int n" "int n < P" using Suc.prems by simp_all
  have split: "{0 ..< int (Suc n)} = insert (int n) {0 ..< int n}" by auto
  have a: "0 \<le> (int n * T) div P"
    using assms by (simp add: pos_imp_zdiv_nonneg_iff)
  have b: "(int n * T) div P \<le> ((int n + 1) * T) div P"
    using ic_quotient_mono [of "int n" "int n + 1" T P] assms by simp
  have "(\<Union>r \<in> {0 ..< int (Suc n)}. ic_slice r P T) =
        ic_slice (int n) P T \<union> {0 ..< (int n * T) div P}"
    using Suc.IH n by (simp only: split UN_insert)
  also have "\<dots> = {0 ..< ((int n + 1) * T) div P}"
    using a b by (auto simp: ic_slice_eq [OF n(1) n(2) assms])
  finally show ?case by (simp add: add.commute)
qed

text \<open>
  Claim C7, amended. For every global total \<open>T \<ge> 0\<close> and every number of ranks
  \<open>P \<ge> 1\<close> (an \<^verbatim>\<open>int\<close>) whose product \<open>P * T\<close> fits a \<^verbatim>\<open>long long\<close>, the slices of
  \<^verbatim>\<open>read_ic_serial\<close> have the offset \<open>r * T / P\<close> and the length
  \<open>(r + 1) * T / P - r * T / P\<close> in integer division; the offsets are not negative (the
  lengths are unsigned), the slices are contiguous (rank \<open>r\<close> ends where rank \<open>r + 1\<close>
  starts), pairwise disjoint, and cover exactly the interval \<open>[0, T)\<close>: every element is
  read by exactly one rank.
\<close>

theorem read_ic_serial_slices_partition:
  assumes "0 \<le> T" and "1 \<le> P" and "P < 2 ^ 31" and "P * T < 2 ^ 63"
  shows "(\<forall>r. 0 \<le> r \<and> r < P \<longrightarrow>
            ic_offset r P T = (r * T) div P \<and>
            int (ic_N r P T) = ((r + 1) * T) div P - (r * T) div P \<and>
            0 \<le> ic_offset r P T \<and>
            (r + 1 < P \<longrightarrow> ic_offset (r + 1) P T = ic_offset r P T + int (ic_N r P T)) \<and>
            (r + 1 = P \<longrightarrow> ic_offset r P T + int (ic_N r P T) = T))
       \<and> (\<forall>r s. 0 \<le> r \<and> r < s \<and> s < P \<longrightarrow> ic_slice r P T \<inter> ic_slice s P T = {})
       \<and> (\<Union>r \<in> {0 ..< P}. ic_slice r P T) = {0 ..< T}"
proof (intro conjI allI impI)
  fix r assume r: "0 \<le> r \<and> r < P"
  show o: "ic_offset r P T = (r * T) div P"
    using ic_offset_nonneg_eq [of r P T] r assms by simp
  show n: "int (ic_N r P T) = ((r + 1) * T) div P - (r * T) div P"
    using ic_N_eq [of r P T] r assms by simp
  show "0 \<le> ic_offset r P T"
    unfolding o using r assms by (simp add: pos_imp_zdiv_nonneg_iff)
  {
    assume "r + 1 < P"
    then have "ic_offset (r + 1) P T = ((r + 1) * T) div P"
      using ic_offset_nonneg_eq [of "r + 1" P T] r assms by simp
    then show "ic_offset (r + 1) P T = ic_offset r P T + int (ic_N r P T)"
      using o n by simp
  }
  {
    assume "r + 1 = P"
    then have "((r + 1) * T) div P = T" using assms by simp
    then show "ic_offset r P T + int (ic_N r P T) = T"
      using o n by simp
  }
next
  fix r s assume rs: "0 \<le> r \<and> r < s \<and> s < P"
  have "((r + 1) * T) div P \<le> (s * T) div P"
    using ic_quotient_mono [of "r + 1" s T P] rs assms by simp
  moreover have "ic_slice r P T = {(r * T) div P ..< ((r + 1) * T) div P}"
    using ic_slice_eq [of r P T] rs assms by simp
  moreover have "ic_slice s P T = {(s * T) div P ..< ((s + 1) * T) div P}"
    using ic_slice_eq [of s P T] rs assms by simp
  ultimately show "ic_slice r P T \<inter> ic_slice s P T = {}"
    by auto
next
  have "int (nat P) = P" using assms by simp
  then show "(\<Union>r \<in> {0 ..< P}. ic_slice r P T) = {0 ..< T}"
    using ic_slices_upto [OF assms, of "nat P"] assms by simp
qed

theorem read_ic_serial_slices_partition_witness:
  "(0::int) \<le> 10 \<and> (1::int) \<le> 3 \<and> (3::int) < 2 ^ 31 \<and> (3::int) * 10 < 2 ^ 63 \<and>
   ic_offset 2 3 10 = 6 \<and> ic_N 2 3 10 = 4 \<and>
   ic_slice 0 3 10 \<inter> ic_slice 2 3 10 = {} \<and>
   (\<Union>r \<in> {0 ..< 3}. ic_slice r 3 10) = {0 ..< 10}"
proof -
  have T: "(0::int) \<le> 10" and P: "(1::int) \<le> 3" and P': "(3::int) < 2 ^ 31"
    and PT: "(3::int) * 10 < 2 ^ 63" by simp_all
  have "ic_offset 2 3 10 = 6" and "ic_N 2 3 10 = 4"
    by (simp_all add: ic_N_def ic_offset_def c_div_def c_long_long_def c_int_def
          c_size_t_def wrap_signed_def)
  then show ?thesis
    using read_ic_serial_slices_partition [OF T P P' PT] by simp
qed

text \<open>
  With \<open>T = 2\<^sup>6\<^sup>2\<close> elements and two ranks the product \<open>(1 + 1) * T\<close> of rank 1 does not fit
  a \<^verbatim>\<open>long long\<close>: it wraps to \<open>- 2\<^sup>6\<^sup>3\<close>, the difference is negative, and the length
  stored in the \<^verbatim>\<open>size_t\<close> is \<open>5 * 2\<^sup>6\<^sup>1\<close>. The slice of rank 1 then holds the position
  \<open>T\<close>, which is outside \<open>[0, T)\<close>.
\<close>

theorem read_ic_serial_product_wraps_counterexample:
  "ic_offset 1 2 (2 ^ 62) = 2 ^ 61 \<and>
   ic_N 1 2 (2 ^ 62) = 11529215046068469760 \<and>
   int (ic_N 1 2 (2 ^ 62)) \<noteq> ((1 + 1) * 2 ^ 62) div 2 - (1 * 2 ^ 62) div 2 \<and>
   (2 ^ 62 :: int) \<in> ic_slice 1 2 (2 ^ 62) \<and>
   (2 ^ 62 :: int) \<notin> {0 ..< 2 ^ 62}"
  by (simp add: ic_slice_def ic_N_def ic_offset_def c_div_def c_long_long_def c_int_def
        c_size_t_def wrap_signed_def)

section \<open>The first filtering pass\<close>

lemma los_first_loop_guarded:
  "los_first_loop K LOS ps c = c + length (filter (los_guarded_match K LOS) ps)"
  by (induction ps arbitrary: c)
     (simp_all add: Let_def los_guarded_match_def spec_los_match_def los_wrapped_dx_def
        los_wrapped_dy_def)






section \<open>The second filtering pass\<close>

lemma threadpool_chunks_concat: "concat (threadpool_chunks n xs) = xs"
proof (induction n xs rule: threadpool_chunks.induct)
  case (1 n xs)
  show ?case
  proof (cases "n = 0 \<or> length xs \<le> n")
    case True
    then show ?thesis by (subst threadpool_chunks.simps) simp
  next
    case False
    with "1.IH" show ?thesis by (subst threadpool_chunks.simps) simp
  qed
qed

lemma los_guarded_match_local_update [simp]:
  "los_guarded_match K (LOS\<lparr>particles_in_los_local := n\<rparr>) = los_guarded_match K LOS"
  by (rule ext)
     (simp add: los_guarded_match_def spec_los_match_def los_wrapped_dx_def los_wrapped_dy_def)

lemma fold_los_first_loop_mapper:
  "fold (los_first_loop_mapper K) cs LOS =
     LOS\<lparr>particles_in_los_local :=
           particles_in_los_local LOS + length (filter (los_guarded_match K LOS) (concat cs))\<rparr>"
proof (induction cs arbitrary: LOS)
  case Nil
  show ?case by simp
next
  case (Cons c cs)
  have "fold (los_first_loop_mapper K) (c # cs) LOS =
        fold (los_first_loop_mapper K) cs (los_first_loop_mapper K c LOS)"
    by simp
  also have "\<dots> = (los_first_loop_mapper K c LOS)\<lparr>particles_in_los_local :=
           particles_in_los_local (los_first_loop_mapper K c LOS) +
           length (filter (los_guarded_match K (los_first_loop_mapper K c LOS)) (concat cs))\<rparr>"
    by (rule Cons.IH)
  also have "\<dots> = LOS\<lparr>particles_in_los_local :=
           particles_in_los_local LOS +
           length (filter (los_guarded_match K LOS) (concat (c # cs)))\<rparr>"
    by (simp add: los_first_loop_mapper_def los_first_loop_guarded)
  finally show ?case .
qed

lemma threadpool_map_first_pass:
  "threadpool_map n (los_first_loop_mapper K) ps LOS =
     LOS\<lparr>particles_in_los_local :=
           particles_in_los_local LOS + length (filter (los_guarded_match K LOS) ps)\<rparr>"
  by (simp add: threadpool_map_def fold_los_first_loop_mapper threadpool_chunks_concat)

lemma los_second_loop_step:
  "i < nr \<Longrightarrow>
   los_second_loop K LOS ps xps nr i (c, bp, bx) =
     (if los_guarded_match K LOS (ps ! i)
      then (if c < length bp \<and> c < length bx
            then los_second_loop K LOS ps xps nr (i + 1) (c + 1, bp[c := ps ! i], bx[c := xps ! i])
            else None)
      else los_second_loop K LOS ps xps nr (i + 1) (c, bp, bx))"
  by (subst los_second_loop.simps)
     (simp add: Let_def los_guarded_match_def spec_los_match_def los_wrapped_dx_def
        los_wrapped_dy_def)

lemma los_second_loop_stop:
  "\<not> i < nr \<Longrightarrow> los_second_loop K LOS ps xps nr i (c, bp, bx) = Some (c, bp, bx)"
  by (subst los_second_loop.simps) simp

lemma matching_indices_step:
  "i < nr \<Longrightarrow> matching_indices G ps i nr =
     (if G (ps ! i) then i # matching_indices G ps (i + 1) nr else matching_indices G ps (i + 1) nr)"
  by (simp add: matching_indices_def upt_conv_Cons)

lemma take_update_snoc:
  "c < length b \<Longrightarrow> take (Suc c) (b[c := v]) = take c b @ [v]"
  by (simp add: take_Suc_conv_app_nth)

lemma los_second_loop_invariant:
  assumes "c + length (matching_indices (los_guarded_match K LOS) ps i nr) \<le> length bp"
      and "length bx = length bp"
  shows "\<exists>bp' bx'.
           los_second_loop K LOS ps xps nr i (c, bp, bx) =
             Some (c + length (matching_indices (los_guarded_match K LOS) ps i nr), bp', bx') \<and>
           length bp' = length bp \<and> length bx' = length bx \<and>
           take (c + length (matching_indices (los_guarded_match K LOS) ps i nr)) bp' =
             take c bp @ map (\<lambda>k. ps ! k) (matching_indices (los_guarded_match K LOS) ps i nr) \<and>
           take (c + length (matching_indices (los_guarded_match K LOS) ps i nr)) bx' =
             take c bx @ map (\<lambda>k. xps ! k) (matching_indices (los_guarded_match K LOS) ps i nr)"
  using assms
proof (induction "nr - i" arbitrary: i c bp bx)
  case 0
  then have "\<not> i < nr" by simp
  then show ?case
    by (simp add: los_second_loop_stop matching_indices_def)
next
  case (Suc d)
  then have lt: "i < nr" and d: "d = nr - (i + 1)" by simp_all
  show ?case
  proof (cases "los_guarded_match K LOS (ps ! i)")
    case False
    then have mi: "matching_indices (los_guarded_match K LOS) ps i nr =
                   matching_indices (los_guarded_match K LOS) ps (i + 1) nr"
      using lt by (simp add: matching_indices_step)
    from Suc.hyps(1) [OF d, of c bp bx] Suc.prems mi
    show ?thesis using lt False by (simp add: los_second_loop_step)
  next
    case True
    then have mi: "matching_indices (los_guarded_match K LOS) ps i nr =
                   i # matching_indices (los_guarded_match K LOS) ps (i + 1) nr"
      using lt by (simp add: matching_indices_step)
    with Suc.prems have c: "c < length bp" "c < length bx" by simp_all
    have p1: "(c + 1) + length (matching_indices (los_guarded_match K LOS) ps (i + 1) nr)
              \<le> length (bp[c := ps ! i])"
      using Suc.prems mi by simp
    have p2: "length (bx[c := xps ! i]) = length (bp[c := ps ! i])"
      using Suc.prems by simp
    from Suc.hyps(1) [OF d p1 p2]
    obtain bp' bx' where
      r: "los_second_loop K LOS ps xps nr (i + 1) (c + 1, bp[c := ps ! i], bx[c := xps ! i]) =
            Some (c + 1 + length (matching_indices (los_guarded_match K LOS) ps (i + 1) nr), bp', bx')"
      and l: "length bp' = length bp" "length bx' = length bx"
      and tp: "take (c + 1 + length (matching_indices (los_guarded_match K LOS) ps (i + 1) nr)) bp' =
               take (c + 1) (bp[c := ps ! i]) @
               map (\<lambda>k. ps ! k) (matching_indices (los_guarded_match K LOS) ps (i + 1) nr)"
      and tx: "take (c + 1 + length (matching_indices (los_guarded_match K LOS) ps (i + 1) nr)) bx' =
               take (c + 1) (bx[c := xps ! i]) @
               map (\<lambda>k. xps ! k) (matching_indices (los_guarded_match K LOS) ps (i + 1) nr)"
      by auto
    have "los_second_loop K LOS ps xps nr i (c, bp, bx) =
            Some (c + length (matching_indices (los_guarded_match K LOS) ps i nr), bp', bx')"
      using lt True c r mi by (simp add: los_second_loop_step)
    moreover have "take (c + length (matching_indices (los_guarded_match K LOS) ps i nr)) bp' =
             take c bp @ map (\<lambda>k. ps ! k) (matching_indices (los_guarded_match K LOS) ps i nr)"
      using tp c by (simp add: mi take_update_snoc)
    moreover have "take (c + length (matching_indices (los_guarded_match K LOS) ps i nr)) bx' =
             take c bx @ map (\<lambda>k. xps ! k) (matching_indices (los_guarded_match K LOS) ps i nr)"
      using tx c by (simp add: mi take_update_snoc)
    ultimately show ?thesis using l by blast
  qed
qed

lemma length_matching_indices:
  "length ps = nr \<Longrightarrow> length (matching_indices G ps 0 nr) = length (filter G ps)"
proof -
  assume "length ps = nr"
  then have "map (\<lambda>k. ps ! k) [0 ..< nr] = ps" using map_nth [of ps] by simp
  then have "length (filter G ps) = length (filter G (map (\<lambda>k. ps ! k) [0 ..< nr]))" by simp
  also have "\<dots> = length (filter (\<lambda>k. G (ps ! k)) [0 ..< nr])"
    by (simp add: filter_map comp_def)
  finally show ?thesis by (simp add: matching_indices_def)
qed

lemma first_loop_single: "(los_first_loop K LOS [p] 0 = 1) = los_guarded_match K LOS p"
  by (simp add: los_first_loop_guarded)

text \<open>
  Claim C2. For a particle array and a sightline held fixed between the two passes, the
  second pass of \<^verbatim>\<open>do_line_of_sight\<close> copies exactly the records that the first pass
  counts, in the order of the array and each once (the copied records are those at the
  increasing list of accepted indices), and the number of records it copies equals the
  local count accumulated by the first pass, whatever the chunks of the first pass.
  The buffers hold at least as many records as the first pass counted, as the source
  allocates them, and no copy falls outside them.
\<close>

theorem do_line_of_sight_passes_agree:
  assumes "length (parts s) = nr_parts s" and "length (xparts s) = nr_parts s"
      and "particles_in_los_local LOS = 0"
      and "los1 = threadpool_map chunk_size (los_first_loop_mapper K) (parts s) LOS"
      and "particles_in_los_local los1 \<le> length bp" and "length bx = length bp"
  shows "case los_second_loop K los1 (parts s) (xparts s) (nr_parts s) 0 (0, bp, bx) of
           None \<Rightarrow> False
         | Some (count, LOS_parts, LOS_xparts) \<Rightarrow>
             count = particles_in_los_local los1 \<and>
             take count LOS_parts =
               map (\<lambda>i. parts s ! i)
                 (filter (\<lambda>i. los_first_loop K LOS [parts s ! i] 0 = 1) [0 ..< nr_parts s]) \<and>
             take count LOS_xparts =
               map (\<lambda>i. xparts s ! i)
                 (filter (\<lambda>i. los_first_loop K LOS [parts s ! i] 0 = 1) [0 ..< nr_parts s])"
proof -
  let ?G = "los_guarded_match K LOS"
  let ?I = "matching_indices ?G (parts s) 0 (nr_parts s)"
  have los1: "los1 = LOS\<lparr>particles_in_los_local := length (filter ?G (parts s))\<rparr>"
    using assms(3,4) by (simp add: threadpool_map_first_pass)
  then have G1: "los_guarded_match K los1 = ?G" by simp
  have n: "particles_in_los_local los1 = length ?I"
    using los1 assms(1) by (simp add: length_matching_indices)
  have idx: "filter (\<lambda>i. los_first_loop K LOS [parts s ! i] 0 = 1) [0 ..< nr_parts s] = ?I"
    by (simp only: matching_indices_def first_loop_single)
  have "0 + length (matching_indices (los_guarded_match K los1) (parts s) 0 (nr_parts s)) \<le> length bp"
    using assms(5) n G1 by simp
  from los_second_loop_invariant [OF this assms(6), of "xparts s"] G1 n idx
  show ?thesis by auto
qed

theorem do_line_of_sight_passes_agree_witness:
  "length (parts space_example) = nr_parts space_example \<and>
   length (xparts space_example) = nr_parts space_example \<and>
   particles_in_los_local los_example = 0 \<and>
   particles_in_los_local
     (threadpool_map 3 (los_first_loop_mapper kernel_example) (parts space_example) los_example) = 2 \<and>
   los_second_loop kernel_example
     (threadpool_map 3 (los_first_loop_mapper kernel_example) (parts space_example) los_example)
     (parts space_example) (xparts space_example) (nr_parts space_example) 0
     (0, replicate 2 part_blank, replicate 2 0) =
   Some (2, [parts space_example ! 0, parts space_example ! 3], [10, 40])"
proof -
  let ?los1 = "threadpool_map 3 (los_first_loop_mapper kernel_example) (parts space_example) los_example"
  have a: "length (parts space_example) = nr_parts space_example"
    and b: "length (xparts space_example) = nr_parts space_example"
    and c: "particles_in_los_local los_example = 0"
    by (simp_all add: space_example_def parts_example_def los_example_def create_line_of_sight_def)
  have ch: "threadpool_chunks 3 (parts space_example) =
            [take 3 (parts space_example), drop 3 (parts space_example)]"
    by (simp add: threadpool_chunks.simps space_example_def parts_example_def)
  have los1: "?los1 = los_example\<lparr>particles_in_los_local := 2\<rparr>"
    by (simp add: threadpool_map_def ch)
       (simp add: space_example_def parts_example_def los_first_loop_mapper_def
          kernel_example_def nearest_example_def los_example_def create_line_of_sight_def)
  have d: "particles_in_los_local ?los1 \<le> length (replicate 2 part_blank)"
    and e: "length (replicate 2 (0::nat)) = length (replicate 2 part_blank)"
    by (simp_all add: los1)
  have r: "los_second_loop kernel_example ?los1
     (parts space_example) (xparts space_example) (nr_parts space_example) 0
     (0, replicate 2 part_blank, replicate 2 0) =
   Some (2, [parts space_example ! 0, parts space_example ! 3], [10, 40])"
    unfolding los1
    by (simp add: los_second_loop.simps space_example_def parts_example_def kernel_example_def
          nearest_example_def los_example_def create_line_of_sight_def numeral_2_eq_2)
  show ?thesis
    using a b c d e r los1 do_line_of_sight_passes_agree [OF a b c refl d e]
    by simp
qed

section \<open>Generating the sightlines\<close>













section \<open>Counting across the ranks and the extraction pass\<close>








lemma threadpool_map_first_pass_total [simp]:
  "particles_in_los_total (threadpool_map n (los_first_loop_mapper K) ps LOS) =
     particles_in_los_total LOS"
  by (simp add: threadpool_map_first_pass)

lemma length_MPI_Allgather_counts [simp]:
  "length (MPI_Allgather_counts e K ranks LOS) = length ranks"
  by (simp add: MPI_Allgather_counts_def)




























section \<open>Creating a dataset\<close>

lemma write_los_hdf5_dataset_plan:
  "write_los_hdf5_dataset d N c =
     \<lparr>dc_space = (if d > 1 then [N, nat d] else [N]),
      dc_plist = \<lparr>pl_chunk = (if d > 1 then [min (2 ^ 20) N, nat d] else [min (2 ^ 20) N]),
                  pl_fletcher32 = True,
                  pl_shuffle = (c > 0),
                  pl_deflate = (if c > 0 then Some c else None)\<rparr>\<rparr>"
  by (simp add: write_los_hdf5_dataset_def Let_def H5Sset_extent_simple_def H5Pcreate_def
        H5Pset_chunk_def H5Pset_fletcher32_def H5Pset_shuffle_def H5Pset_deflate_def min_def)

lemma prepareArray_plan:
  "prepareArray d N_total =
     \<lparr>dc_space = (if d > 1 then [hsize_of_long_long N_total, nat d] else [hsize_of_long_long N_total]),
      dc_plist = \<lparr>pl_chunk = (if d > 1 then [min (2 ^ 16) (hsize_of_long_long N_total), nat d]
                               else [min (2 ^ 16) (hsize_of_long_long N_total)]),
                  pl_fletcher32 = False,
                  pl_shuffle = False,
                  pl_deflate = Some 4\<rparr>\<rparr>"
  by (simp add: prepareArray_def Let_def H5Sset_extent_simple_def H5Pcreate_def
        H5Pset_chunk_def H5Pset_deflate_def min_def)

text \<open>
  Claim C3, as amended. For every dataset that \<^verbatim>\<open>write_los_hdf5_dataset\<close> creates with \<open>N\<close>
  elements of vector width \<open>d\<close>: the shape is \<open>[N]\<close> (for \<open>d = 1\<close>) or \<open>[N, d]\<close> (for
  \<open>d > 1\<close>), the leading chunk extent is \<open>2\<^sup>2\<^sup>0\<close> clipped down to \<open>N\<close> when \<open>N\<close> is smaller,
  the checksum filter is enabled unconditionally, and shuffle and deflate are enabled if
  and only if the configured compression level is positive. The dataset that
  \<^verbatim>\<open>prepareArray\<close> creates for a serial snapshot has the same shape and a leading chunk
  extent of \<open>2\<^sup>1\<^sup>6\<close> clipped in the same way, with no checksum filter, no shuffle, and
  deflate at the fixed level 4.
\<close>

theorem dataset_creation_properties:
  "spec_declare_dataset (2 ^ 20) (write_los_hdf5_dataset d N compression) N d compression
   \<and> dc_space (prepareArray d N_total) = spec_dataset_shape (hsize_of_long_long N_total) d
   \<and> hd (pl_chunk (dc_plist (prepareArray d N_total))) =
       spec_chunk_extent (2 ^ 16) (hsize_of_long_long N_total)
   \<and> \<not> pl_fletcher32 (dc_plist (prepareArray d N_total))
   \<and> \<not> pl_shuffle (dc_plist (prepareArray d N_total))
   \<and> pl_deflate (dc_plist (prepareArray d N_total)) = Some 4"
  by (simp add: write_los_hdf5_dataset_plan prepareArray_plan spec_declare_dataset_def
        spec_dataset_shape_def spec_chunk_extent_def min_def)

text \<open>
  The claim as first stated, for both writers, fails for \<^verbatim>\<open>prepareArray\<close>: a dataset of
  100 elements of width 3 has no checksum filter, and is deflated at level 4 without
  shuffle whether the configured level is 0 or 4.
\<close>

theorem prepareArray_no_checksum_counterexample:
  "dc_space (prepareArray 3 100) = [100, 3] \<and>
   pl_chunk (dc_plist (prepareArray 3 100)) = [100, 3] \<and>
   \<not> pl_fletcher32 (dc_plist (prepareArray 3 100)) \<and>
   \<not> pl_shuffle (dc_plist (prepareArray 3 100)) \<and>
   pl_deflate (dc_plist (prepareArray 3 100)) = Some 4 \<and>
   \<not> spec_declare_dataset (2 ^ 16) (prepareArray 3 100) 100 3 0 \<and>
   \<not> spec_declare_dataset (2 ^ 16) (prepareArray 3 100) 100 3 4"
  by (simp add: prepareArray_plan spec_declare_dataset_def hsize_of_long_long_def)

section \<open>Stellar evolution of a star particle\<close>

lemma for_elements_Suc:
  "for_elements (Suc n) f a = (for_elements n f a)[n := f n (for_elements n f a ! n)]"
  by (simp add: for_elements_def)

lemma length_for_elements [simp]: "length (for_elements n f a) = length a"
  by (induction n) (simp_all add: for_elements_Suc, simp add: for_elements_def)

lemma for_elements_nth:
  "n \<le> length a \<Longrightarrow>
   for_elements n f a ! k = (if k < n then f k (a ! k) else a ! k)"
proof (induction n)
  case 0
  show ?case by (simp add: for_elements_def)
next
  case (Suc n)
  then show ?case by (auto simp: for_elements_Suc nth_list_update)
qed

lemmas stars_defs = stars_evolve_spart_def compute_stellar_evolution_def evolve_SNIa_def
  evolve_SNII_def evolve_AGB_def compute_SNe_def for_elements_def zero_negative_def Let_def
  yield_env_example_def yield_env_large_def feedback_example_def spart_example_def
  spart_heavy_def upt_rec

lemma stars_evolve_spart_example:
  "stars_evolve_spart yield_env_example feedback_example spart_example (Finite (1 / 2)) (Finite (1 / 2)) =
   Inr (spart_example\<lparr>sp_to_distribute :=
          \<lparr>num_SNIa = Finite 0, num_SNII = Finite 5, num_SNe = Finite 0, mass = Finite 14,
           metal_mass = [Finite 2, Finite 4, Finite 6], total_metal_mass = Finite 8,
           mass_from_AGB = Finite 0, metal_mass_from_AGB = Finite 0,
           mass_from_SNII = Finite 12, metal_mass_from_SNII = Finite 8,
           mass_from_SNIa = Finite 0, metal_mass_from_SNIa = Finite 0,
           Fe_mass_from_SNIa = Finite 0\<rparr>\<rparr>)"
  by (simp add: stars_defs fp_eval)

lemma stars_evolve_spart_example_no_interval:
  "stars_evolve_spart yield_env_example feedback_example spart_example (Finite 3) (Finite 0) =
   Inr (spart_example\<lparr>sp_to_distribute :=
          \<lparr>num_SNIa = Finite 0, num_SNII = Finite 0, num_SNe = Finite 0, mass = Finite 0,
           metal_mass = [Finite 0, Finite 0, Finite 0], total_metal_mass = Finite 0,
           mass_from_AGB = Finite 0, metal_mass_from_AGB = Finite 0,
           mass_from_SNII = Finite 0, metal_mass_from_SNII = Finite 0,
           mass_from_SNIa = Finite 0, metal_mass_from_SNIa = Finite 0,
           Fe_mass_from_SNIa = Finite 0\<rparr>\<rparr>)"
  by (simp add: stars_defs fp_eval)

lemma stars_evolve_spart_large:
  "stars_evolve_spart yield_env_large feedback_example spart_example (Finite (1 / 2)) (Finite (1 / 2)) =
   Inr (spart_example\<lparr>sp_to_distribute :=
          \<lparr>num_SNIa = Finite 0, num_SNII = Finite 5, num_SNe = Finite 0,
           mass = Finite 268435456,
           metal_mass = [Finite 0, Finite 2, Finite 0], total_metal_mass = Finite 268435456,
           mass_from_AGB = Finite 0, metal_mass_from_AGB = Finite 0,
           mass_from_SNII = Finite 2, metal_mass_from_SNII = Finite 268435456,
           mass_from_SNIa = Finite 0, metal_mass_from_SNIa = Finite 0,
           Fe_mass_from_SNIa = Finite 0\<rparr>\<rparr>)"
  by (simp add: stars_defs fp_eval)

lemma stars_evolve_spart_heavy:
  "stars_evolve_spart yield_env_large feedback_example spart_heavy (Finite (1 / 2)) (Finite (1 / 2)) =
   Inr (spart_heavy\<lparr>sp_to_distribute :=
          \<lparr>num_SNIa = Finite 0, num_SNII = Finite 5, num_SNe = Finite 0,
           mass = NaN,
           metal_mass = [NaN, PInf, NaN], total_metal_mass = PInf,
           mass_from_AGB = Finite 0, metal_mass_from_AGB = Finite 0,
           mass_from_SNII = NaN, metal_mass_from_SNII = PInf,
           mass_from_SNIa = Finite 0, metal_mass_from_SNIa = Finite 0,
           Fe_mass_from_SNIa = Finite 0\<rparr>\<rparr>)"
  by (simp add: stars_defs fp_eval)

text \<open>
  Claim C10, amended. After every normal return of \<^verbatim>\<open>stars_evolve_spart\<close> the field
  \<^verbatim>\<open>to_distribute.mass\<close> holds the value of the \<^verbatim>\<open>float\<close> expression
  \<^verbatim>\<open>total_metal_mass + metal_mass[0] + metal_mass[1]\<close>, each of the two additions rounded
  to single precision: the assignment that ends \<^verbatim>\<open>compute_stellar_evolution\<close> establishes
  it whatever the three routines accumulated, and on the early return for an empty
  integration interval it holds because the three quantities were zeroed at entry. The
  comparison \<^verbatim>\<open>==\<close> of the field with that expression holds exactly when the value is not a
  NaN, and the field is the exact sum of the three quantities when they are finite and
  neither addition rounds. The array \<^verbatim>\<open>metal_mass\<close> has \<^verbatim>\<open>chemistry_element_count\<close> entries, at
  least the two that the source reads.
\<close>

theorem stars_evolve_spart_mass_balance:
  assumes "stars_evolve_spart Y stars sp current_time dt = Inr sp'"
      and "2 \<le> chemistry_element_count Y"
      and "length (metal_mass (sp_to_distribute sp)) = chemistry_element_count Y"
  shows "mass (sp_to_distribute sp') =
           f_add (f_add (total_metal_mass (sp_to_distribute sp'))
                    (metal_mass (sp_to_distribute sp') ! 0))
             (metal_mass (sp_to_distribute sp') ! 1)
         \<and> (fp_eq (mass (sp_to_distribute sp'))
               (f_add (f_add (total_metal_mass (sp_to_distribute sp'))
                         (metal_mass (sp_to_distribute sp') ! 0))
                  (metal_mass (sp_to_distribute sp') ! 1))
              \<longleftrightarrow> mass (sp_to_distribute sp') \<noteq> NaN)
         \<and> (\<forall>a b c. total_metal_mass (sp_to_distribute sp') = Finite a \<and>
                     metal_mass (sp_to_distribute sp') ! 0 = Finite b \<and>
                     metal_mass (sp_to_distribute sp') ! 1 = Finite c \<and>
                     is_fp binary32 (a + b) \<and> is_fp binary32 (a + b + c)
               \<longrightarrow> mass (sp_to_distribute sp') = Finite (a + b + c))"
proof -
  let ?td3 = "(sp_to_distribute sp)\<lparr>num_SNIa := Finite 0, num_SNII := Finite 0, mass := Finite 0,
       metal_mass := for_elements (chemistry_element_count Y) (\<lambda>i v. Finite 0)
                       (metal_mass (sp_to_distribute sp)),
       total_metal_mass := Finite 0, mass_from_AGB := Finite 0, metal_mass_from_AGB := Finite 0,
       mass_from_SNII := Finite 0, metal_mass_from_SNII := Finite 0, mass_from_SNIa := Finite 0,
       metal_mass_from_SNIa := Finite 0, Fe_mass_from_SNIa := Finite 0\<rparr>"
  let ?sp0 = "sp\<lparr>sp_to_distribute := ?td3\<rparr>"
  let ?age = "f_sub current_time (birth_time sp)"
  let ?sum = "f_add (f_add (total_metal_mass (sp_to_distribute sp'))
                    (metal_mass (sp_to_distribute sp') ! 0))
             (metal_mass (sp_to_distribute sp') ! 1)"
  from assms(1) obtain sp1 where
    c: "compute_stellar_evolution Y stars ?sp0 ?age dt = Inr sp1"
    and s: "sp' = sp1\<lparr>sp_to_distribute := (sp_to_distribute sp1)
                       \<lparr>num_SNe := compute_SNe sp1 stars ?age dt\<rparr>\<rparr>"
    by (auto simp: stars_evolve_spart_def Let_def split: sum.splits)
  have z: "metal_mass ?td3 ! 0 = Finite 0" "metal_mass ?td3 ! 1 = Finite 0"
    using assms(2,3) by (simp_all add: for_elements_nth)
  have "mass (sp_to_distribute sp1) =
           f_add (f_add (total_metal_mass (sp_to_distribute sp1))
                    (metal_mass (sp_to_distribute sp1) ! 0))
             (metal_mass (sp_to_distribute sp1) ! 1)"
    using c z
    by (auto simp: compute_stellar_evolution_def Let_def split: if_splits sum.splits)
  then have m: "mass (sp_to_distribute sp') = ?sum" by (simp add: s)
  have e: "fp_eq (mass (sp_to_distribute sp')) ?sum \<longleftrightarrow> mass (sp_to_distribute sp') \<noteq> NaN"
    using m fp_eq_same [of ?sum] by simp
  have x: "mass (sp_to_distribute sp') = Finite (a + b + c)"
    if "total_metal_mass (sp_to_distribute sp') = Finite a"
       "metal_mass (sp_to_distribute sp') ! 0 = Finite b"
       "metal_mass (sp_to_distribute sp') ! 1 = Finite c"
       "is_fp binary32 (a + b)" "is_fp binary32 (a + b + c)" for a b c
    using m that by (simp add: is_fp_def)
  show ?thesis using m e x by blast
qed

theorem stars_evolve_spart_mass_balance_witness:
  "stars_evolve_spart yield_env_example feedback_example spart_example (Finite (1 / 2)) (Finite (1 / 2)) =
     Inr (spart_example\<lparr>sp_to_distribute :=
          \<lparr>num_SNIa = Finite 0, num_SNII = Finite 5, num_SNe = Finite 0, mass = Finite 14,
           metal_mass = [Finite 2, Finite 4, Finite 6], total_metal_mass = Finite 8,
           mass_from_AGB = Finite 0, metal_mass_from_AGB = Finite 0,
           mass_from_SNII = Finite 12, metal_mass_from_SNII = Finite 8,
           mass_from_SNIa = Finite 0, metal_mass_from_SNIa = Finite 0,
           Fe_mass_from_SNIa = Finite 0\<rparr>\<rparr>) \<and>
   2 \<le> chemistry_element_count yield_env_example \<and>
   length (metal_mass (sp_to_distribute spart_example)) =
     chemistry_element_count yield_env_example \<and>
   is_fp binary32 (8 + 2) \<and> is_fp binary32 (8 + 2 + 4) \<and>
   Finite 14 = f_add (f_add (Finite 8) (Finite 2)) (Finite 4) \<and>
   fp_eq (Finite 14) (f_add (f_add (Finite 8) (Finite 2)) (Finite 4)) \<and>
   Finite 14 = Finite (8 + 2 + 4)"
proof -
  have c: "2 \<le> chemistry_element_count yield_env_example"
    and l: "length (metal_mass (sp_to_distribute spart_example)) =
            chemistry_element_count yield_env_example"
    by (simp_all add: yield_env_example_def spart_example_def)
  have i: "is_fp binary32 (8 + 2)" "is_fp binary32 (8 + 2 + 4)"
    by (simp_all add: fp_eval)
  show ?thesis
    using c l i stars_evolve_spart_example
      stars_evolve_spart_mass_balance [OF stars_evolve_spart_example c l]
    by (simp add: fp_eval)
qed

text \<open>
  The claim as stated fails in two ways. In the first run the three quantities are
  \<open>2\<^sup>2\<^sup>8\<close>, 0 and 2, whose sum \<open>2\<^sup>2\<^sup>8 + 2\<close> is not a \<^verbatim>\<open>float\<close>: the field holds \<open>2\<^sup>2\<^sup>8\<close>. In the
  second run the initial mass is \<open>2\<^sup>1\<^sup>2\<^sup>7\<close>: the normalisation factor overflows to infinity,
  the product of the zero yield of hydrogen with it is a NaN, the run returns normally,
  and the field is a NaN, which is equal to nothing.
\<close>

theorem stars_evolve_spart_rounding_counterexample:
  "(case stars_evolve_spart yield_env_large feedback_example spart_example
           (Finite (1 / 2)) (Finite (1 / 2)) of
      Inl err \<Rightarrow> False
    | Inr sp' \<Rightarrow>
        mass (sp_to_distribute sp') = Finite (2 ^ 28) \<and>
        total_metal_mass (sp_to_distribute sp') = Finite (2 ^ 28) \<and>
        metal_mass (sp_to_distribute sp') ! 0 = Finite 0 \<and>
        metal_mass (sp_to_distribute sp') ! 1 = Finite 2 \<and>
        (2 ^ 28 :: real) \<noteq> 2 ^ 28 + 0 + 2) \<and>
   (case stars_evolve_spart yield_env_large feedback_example spart_heavy
           (Finite (1 / 2)) (Finite (1 / 2)) of
      Inl err \<Rightarrow> False
    | Inr sp' \<Rightarrow>
        mass (sp_to_distribute sp') = NaN \<and>
        \<not> fp_eq (mass (sp_to_distribute sp'))
            (f_add (f_add (total_metal_mass (sp_to_distribute sp'))
                      (metal_mass (sp_to_distribute sp') ! 0))
               (metal_mass (sp_to_distribute sp') ! 1)))"
  by (simp add: stars_evolve_spart_large stars_evolve_spart_heavy)

section \<open>Reading an array\<close>

lemma readArray_zero_loop_content:
  "readArray_zero_loop props cs N i m a =
     (if \<exists>k. i \<le> k \<and> k < N \<and> readArray_region props cs k a then 0 else m a)"
proof (induction "N - i" arbitrary: i m)
  case 0
  then have "\<not> i < N" by simp
  then show ?case by (subst readArray_zero_loop.simps) auto
next
  case (Suc d)
  then have lt: "i < N" and d: "d = N - (i + 1)" by simp_all
  have split: "(\<exists>k. i \<le> k \<and> k < N \<and> readArray_region props cs k a) =
               (readArray_region props cs i a \<or>
                (\<exists>k. i + 1 \<le> k \<and> k < N \<and> readArray_region props cs k a))"
    using lt by (metis Suc_eq_plus1 Suc_leI le_neq_implies_less order_refl less_imp_le_nat
                   Suc_le_lessD)
  have "readArray_zero_loop props cs N i m a =
        readArray_zero_loop props cs N (i + 1)
          (memset m (io_field props + i * io_partSize props) 0 cs) a"
    using lt by (subst readArray_zero_loop.simps) simp
  also have "\<dots> = (if \<exists>k. i + 1 \<le> k \<and> k < N \<and> readArray_region props cs k a then 0
                    else memset m (io_field props + i * io_partSize props) 0 cs a)"
    by (rule Suc.hyps(1) [OF d])
  also have "\<dots> = (if \<exists>k. i \<le> k \<and> k < N \<and> readArray_region props cs k a then 0 else m a)"
    unfolding split by (auto simp: memset_def readArray_region_def)
  finally show ?case .
qed

lemma readArray_regions_disjoint:
  assumes "cs \<le> io_partSize props" and "i < k"
      and "readArray_region props cs i a"
  shows "\<not> readArray_region props cs k a"
proof -
  have "Suc i * io_partSize props \<le> k * io_partSize props"
    using assms(2) by (intro mult_le_mono1) simp
  then have "io_field props + i * io_partSize props + cs \<le> io_field props + k * io_partSize props"
    using assms(1) by simp
  with assms(3) show ?thesis by (simp add: readArray_region_def)
qed

lemma readArray_copy_loop_content:
  assumes "cs \<le> io_partSize props"
  shows "(\<forall>k. i \<le> k \<and> k < N \<and> readArray_region props cs k a \<longrightarrow>
            readArray_copy_loop props cs temp N i m a =
              temp (k * cs + (a - (io_field props + k * io_partSize props)))) \<and>
         ((\<nexists>k. i \<le> k \<and> k < N \<and> readArray_region props cs k a) \<longrightarrow>
            readArray_copy_loop props cs temp N i m a = m a)"
proof (induction "N - i" arbitrary: i m)
  case 0
  then have "\<not> i < N" by simp
  then show ?case by (subst readArray_copy_loop.simps, subst readArray_copy_loop.simps) auto
next
  case (Suc d)
  then have lt: "i < N" and d: "d = N - (i + 1)" by simp_all
  let ?m1 = "memcpy m (io_field props + i * io_partSize props) temp (i * cs) cs"
  have step: "readArray_copy_loop props cs temp N i m a =
              readArray_copy_loop props cs temp N (i + 1) ?m1 a"
    using lt by (subst readArray_copy_loop.simps) simp
  note IH = Suc.hyps(1) [OF d, of ?m1]
  show ?case
  proof (intro conjI allI impI)
    fix k assume k: "i \<le> k \<and> k < N \<and> readArray_region props cs k a"
    show "readArray_copy_loop props cs temp N i m a =
            temp (k * cs + (a - (io_field props + k * io_partSize props)))"
    proof (cases "k = i")
      case False
      with k have "i + 1 \<le> k \<and> k < N \<and> readArray_region props cs k a" by simp
      with IH step show ?thesis by simp
    next
      case True
      have "\<nexists>j. i + 1 \<le> j \<and> j < N \<and> readArray_region props cs j a"
        using readArray_regions_disjoint [OF assms, of i _ a] k True by auto
      with IH step have "readArray_copy_loop props cs temp N i m a = ?m1 a" by simp
      also have "\<dots> = temp (i * cs + (a - (io_field props + i * io_partSize props)))"
        using k True by (simp add: memcpy_def readArray_region_def)
      finally show ?thesis using True by simp
    qed
  next
    assume n: "\<nexists>k. i \<le> k \<and> k < N \<and> readArray_region props cs k a"
    then have "\<nexists>k. i + 1 \<le> k \<and> k < N \<and> readArray_region props cs k a" by auto
    with IH step have "readArray_copy_loop props cs temp N i m a = ?m1 a" by simp
    also have "\<dots> = m a"
      using n lt by (auto simp: memcpy_def readArray_region_def)
    finally show "readArray_copy_loop props cs temp N i m a = m a" .
  qed
qed

lemma div_row:
  fixes b c i :: nat
  assumes "b < c"
  shows "(i * c + b) div c = i"
proof -
  have "0 < c" using assms by simp
  then have "(b + i * c) div c = b div c + i" by simp
  with assms show ?thesis by (simp add: add.commute)
qed

lemma readArray_absent_optional:
  assumes "H5Lexists grp (io_name props) = 0" and "io_importance props = OPTIONAL"
  shows "readArray env grp props N offset m =
           Inr (readArray_zero_loop props (sizeOfType env (io_type props) * io_dimension props) N 0 m)"
  using assms by (simp add: readArray_def Let_def)

lemma readArray_absent_compulsory:
  assumes "H5Lexists grp (io_name props) = 0" and "io_importance props = COMPULSORY"
  shows "readArray env grp props N offset m =
           Inl (Compulsory_data_set_not_present (io_name props))"
  using assms by (simp add: readArray_def Let_def)

lemma readArray_present:
  assumes "0 < H5Lexists grp (io_name props)"
      and "grp_dataset grp (io_name props) = Some d"
      and "\<not> ds_open_fails d" and "\<not> ds_get_type_fails d" and "\<not> ds_read_fails d"
      and "\<not> malloc_fails env (N * io_dimension props * sizeOfType env (io_type props))"
  shows "readArray env grp props N offset m =
           Inr (readArray_copy_loop props (sizeOfType env (io_type props) * io_dimension props)
                  (if units_conversion_factor env (io_units props) \<noteq> 1
                   then multiply_buffer env (isDoublePrecision env (io_type props))
                          (units_conversion_factor env (io_units props)) (N * io_dimension props)
                          (\<lambda>k. ds_row d
                                 (offset + k div (sizeOfType env (io_type props) * io_dimension props))
                                 (k mod (sizeOfType env (io_type props) * io_dimension props)))
                   else (\<lambda>k. ds_row d
                                 (offset + k div (sizeOfType env (io_type props) * io_dimension props))
                                 (k mod (sizeOfType env (io_type props) * io_dimension props))))
                  N 0 m)"
  using assms by (simp add: readArray_def Let_def H5Dopen_def H5Dread_def)

lemmas io_example_defs =
  io_env_example_def h5_dataset_example_def h5_group_example_def io_props_present_def
  io_props_optional_def io_props_compulsory_def memory_example_def

lemma readArray_example_optional:
  "readArray io_env_example h5_group_example io_props_optional 3 2 memory_example =
     Inr (readArray_zero_loop io_props_optional 8 3 0 memory_example)"
  by (simp add: readArray_def Let_def H5Lexists_def io_example_defs)

lemma readArray_example_optional_bytes:
  "readArray_zero_loop io_props_optional 8 3 0 memory_example 116 = 0"
  "readArray_zero_loop io_props_optional 8 3 0 memory_example 123 = 0"
  "readArray_zero_loop io_props_optional 8 3 0 memory_example 124 = 255"
  "readArray_zero_loop io_props_optional 8 3 0 memory_example 99 = 255"
  by (simp_all add: readArray_zero_loop.simps memset_def io_example_defs)

lemma readArray_example_present:
  "readArray io_env_example h5_group_example io_props_present 3 2 memory_example =
     Inr (readArray_copy_loop io_props_present 8
            (\<lambda>k. ds_row h5_dataset_example (2 + k div 8) (k mod 8)) 3 0 memory_example)"
  by (simp add: readArray_def Let_def H5Lexists_def H5Dopen_def H5Dread_def io_example_defs)

lemma readArray_example_present_bytes:
  "readArray_copy_loop io_props_present 8
     (\<lambda>k. ds_row h5_dataset_example (2 + k div 8) (k mod 8)) 3 0 memory_example 116 = 30"
  "readArray_copy_loop io_props_present 8
     (\<lambda>k. ds_row h5_dataset_example (2 + k div 8) (k mod 8)) 3 0 memory_example 123 = 37"
  "readArray_copy_loop io_props_present 8
     (\<lambda>k. ds_row h5_dataset_example (2 + k div 8) (k mod 8)) 3 0 memory_example 124 = 255"
  "readArray_copy_loop io_props_present 8
     (\<lambda>k. ds_row h5_dataset_example (2 + k div 8) (k mod 8)) 3 0 memory_example 132 = 40"
  by (simp_all add: readArray_copy_loop.simps memcpy_def io_example_defs)

text \<open>
  Claim C4. For every read of a named field by \<^verbatim>\<open>readArray\<close>: if the field is absent from
  the file and optional, the \<open>copySize\<close> bytes of the field of each of the \<open>N\<close> records
  are set to zero, the rest of memory is untouched, and the function returns without
  error; if the field is absent and compulsory, the read fails fatally; if the field is
  present (and the library calls on it succeed), the field of record \<open>i\<close> is filled
  with row \<open>offset + i\<close> of the dataset, that is from the hyperslab
  \<open>[offset, offset + N)\<close>, after the unit conversion when the factor is not 1, and
  nothing is zeroed. In the last case the field fits in the record
  (\<open>copySize \<le> partSize\<close>), so that the destinations do not overlap.
\<close>

theorem readArray_absent_or_present:
  "(H5Lexists grp (io_name props) = 0 \<and> io_importance props = OPTIONAL \<longrightarrow>
      (case readArray env grp props N offset m of
         Inl err \<Rightarrow> False
       | Inr m' \<Rightarrow>
           \<forall>a. m' a =
             (if \<exists>i<N. readArray_region props (sizeOfType env (io_type props) * io_dimension props) i a
              then 0 else m a)))
   \<and> (H5Lexists grp (io_name props) = 0 \<and> io_importance props = COMPULSORY \<longrightarrow>
        readArray env grp props N offset m =
          Inl (Compulsory_data_set_not_present (io_name props)))
   \<and> (0 < H5Lexists grp (io_name props) \<and> grp_dataset grp (io_name props) = Some d \<and>
        \<not> ds_open_fails d \<and> \<not> ds_get_type_fails d \<and> \<not> ds_read_fails d \<and>
        \<not> malloc_fails env (N * io_dimension props * sizeOfType env (io_type props)) \<and>
        sizeOfType env (io_type props) * io_dimension props \<le> io_partSize props \<longrightarrow>
        (case readArray env grp props N offset m of
           Inl err \<Rightarrow> False
         | Inr m' \<Rightarrow>
             (\<forall>i<N. \<forall>b < sizeOfType env (io_type props) * io_dimension props.
                m' (io_field props + i * io_partSize props + b) =
                  (if units_conversion_factor env (io_units props) = 1
                   then ds_row d (offset + i) b
                   else multiply_buffer env (isDoublePrecision env (io_type props))
                          (units_conversion_factor env (io_units props)) (N * io_dimension props)
                          (\<lambda>k. ds_row d
                                 (offset + k div (sizeOfType env (io_type props) * io_dimension props))
                                 (k mod (sizeOfType env (io_type props) * io_dimension props)))
                          (i * (sizeOfType env (io_type props) * io_dimension props) + b))) \<and>
             (\<forall>a. (\<nexists>i. i < N \<and>
                       readArray_region props (sizeOfType env (io_type props) * io_dimension props) i a)
                   \<longrightarrow> m' a = m a)))"
proof -
  let ?cs = "sizeOfType env (io_type props) * io_dimension props"
  let ?t0 = "\<lambda>k. ds_row d (offset + k div ?cs) (k mod ?cs)"
  let ?temp = "if units_conversion_factor env (io_units props) \<noteq> 1
                   then multiply_buffer env (isDoublePrecision env (io_type props))
                          (units_conversion_factor env (io_units props)) (N * io_dimension props) ?t0
                   else ?t0"
  have A: "case readArray env grp props N offset m of
         Inl err \<Rightarrow> False
       | Inr m' \<Rightarrow> \<forall>a. m' a = (if \<exists>i<N. readArray_region props ?cs i a then 0 else m a)"
    if "H5Lexists grp (io_name props) = 0 \<and> io_importance props = OPTIONAL"
    using that by (simp add: readArray_absent_optional readArray_zero_loop_content)
  have B: "readArray env grp props N offset m =
          Inl (Compulsory_data_set_not_present (io_name props))"
    if "H5Lexists grp (io_name props) = 0 \<and> io_importance props = COMPULSORY"
    using that by (simp add: readArray_absent_compulsory)
  have C: "case readArray env grp props N offset m of
           Inl err \<Rightarrow> False
         | Inr m' \<Rightarrow>
             (\<forall>i<N. \<forall>b < ?cs.
                m' (io_field props + i * io_partSize props + b) =
                  (if units_conversion_factor env (io_units props) = 1
                   then ds_row d (offset + i) b
                   else multiply_buffer env (isDoublePrecision env (io_type props))
                          (units_conversion_factor env (io_units props)) (N * io_dimension props)
                          ?t0 (i * ?cs + b))) \<and>
             (\<forall>a. (\<nexists>i. i < N \<and> readArray_region props ?cs i a) \<longrightarrow> m' a = m a)"
    if h: "0 < H5Lexists grp (io_name props) \<and> grp_dataset grp (io_name props) = Some d \<and>
        \<not> ds_open_fails d \<and> \<not> ds_get_type_fails d \<and> \<not> ds_read_fails d \<and>
        \<not> malloc_fails env (N * io_dimension props * sizeOfType env (io_type props)) \<and>
        ?cs \<le> io_partSize props"
  proof -
    from h have r: "readArray env grp props N offset m =
                    Inr (readArray_copy_loop props ?cs ?temp N 0 m)"
      by (intro readArray_present) simp_all
    from h have le: "?cs \<le> io_partSize props" by simp
    note L = readArray_copy_loop_content [OF le, of 0 N _ ?temp m]
    have inside: "readArray_copy_loop props ?cs ?temp N 0 m
                    (io_field props + i * io_partSize props + b) = ?temp (i * ?cs + b)"
      if "i < N" and "b < ?cs" for i b
    proof -
      have "readArray_region props ?cs i (io_field props + i * io_partSize props + b)"
        using that by (simp add: readArray_region_def)
      with L [of "io_field props + i * io_partSize props + b"] that show ?thesis by auto
    qed
    have t0: "?t0 (i * ?cs + b) = ds_row d (offset + i) b" if "b < ?cs" for i b
      using that by (simp add: div_row)
    have outside: "readArray_copy_loop props ?cs ?temp N 0 m a = m a"
      if "\<nexists>i. i < N \<and> readArray_region props ?cs i a" for a
      using L [of a] that by auto
    show ?thesis
      unfolding r using inside t0 outside by (simp del: mult_Suc mult_Suc_right)
  qed
  from A B C show ?thesis by blast
qed

theorem readArray_absent_or_present_witness:
  "H5Lexists h5_group_example (io_name io_props_optional) = 0 \<and>
   io_importance io_props_optional = OPTIONAL \<and>
   (case readArray io_env_example h5_group_example io_props_optional 3 2 memory_example of
      Inl err \<Rightarrow> False
    | Inr m' \<Rightarrow> m' 116 = 0 \<and> m' 123 = 0 \<and> m' 124 = 255 \<and> m' 99 = 255) \<and>
   H5Lexists h5_group_example (io_name io_props_compulsory) = 0 \<and>
   io_importance io_props_compulsory = COMPULSORY \<and>
   readArray io_env_example h5_group_example io_props_compulsory 3 2 memory_example =
     Inl (Compulsory_data_set_not_present ''Velocities'') \<and>
   0 < H5Lexists h5_group_example (io_name io_props_present) \<and>
   grp_dataset h5_group_example (io_name io_props_present) = Some h5_dataset_example \<and>
   \<not> ds_open_fails h5_dataset_example \<and> \<not> ds_get_type_fails h5_dataset_example \<and>
   \<not> ds_read_fails h5_dataset_example \<and>
   \<not> malloc_fails io_env_example
        (3 * io_dimension io_props_present * sizeOfType io_env_example (io_type io_props_present)) \<and>
   sizeOfType io_env_example (io_type io_props_present) * io_dimension io_props_present
     \<le> io_partSize io_props_present \<and>
   (case readArray io_env_example h5_group_example io_props_present 3 2 memory_example of
      Inl err \<Rightarrow> False
    | Inr m' \<Rightarrow> m' 116 = 30 \<and> m' 123 = 37 \<and> m' 124 = 255 \<and> m' 132 = 40)"
proof -
  have o: "H5Lexists h5_group_example (io_name io_props_optional) = 0"
    "io_importance io_props_optional = OPTIONAL"
    by (simp_all add: H5Lexists_def io_example_defs)
  have c: "H5Lexists h5_group_example (io_name io_props_compulsory) = 0"
    "io_importance io_props_compulsory = COMPULSORY"
    by (simp_all add: H5Lexists_def io_example_defs)
  have n: "io_name io_props_compulsory = ''Velocities''" by (simp add: io_props_compulsory_def)
  have p: "0 < H5Lexists h5_group_example (io_name io_props_present)"
    "grp_dataset h5_group_example (io_name io_props_present) = Some h5_dataset_example"
    "\<not> ds_open_fails h5_dataset_example" "\<not> ds_get_type_fails h5_dataset_example"
    "\<not> ds_read_fails h5_dataset_example"
    "\<not> malloc_fails io_env_example
        (3 * io_dimension io_props_present * sizeOfType io_env_example (io_type io_props_present))"
    "sizeOfType io_env_example (io_type io_props_present) * io_dimension io_props_present
     \<le> io_partSize io_props_present"
    by (simp_all add: H5Lexists_def io_example_defs)
  have A: "case readArray io_env_example h5_group_example io_props_optional 3 2 memory_example of
      Inl err \<Rightarrow> False
    | Inr m' \<Rightarrow> m' 116 = 0 \<and> m' 123 = 0 \<and> m' 124 = 255 \<and> m' 99 = 255"
    unfolding readArray_example_optional
    by (simp only: sum.case readArray_example_optional_bytes simp_thms)
  have B: "readArray io_env_example h5_group_example io_props_compulsory 3 2 memory_example =
     Inl (Compulsory_data_set_not_present ''Velocities'')"
    using readArray_absent_compulsory [OF c, of io_env_example 3 2 memory_example]
    unfolding n .
  have C: "case readArray io_env_example h5_group_example io_props_present 3 2 memory_example of
      Inl err \<Rightarrow> False
    | Inr m' \<Rightarrow> m' 116 = 30 \<and> m' 123 = 37 \<and> m' 124 = 255 \<and> m' 132 = 40"
    unfolding readArray_example_present
    by (simp only: sum.case readArray_example_present_bytes simp_thms)
  show ?thesis
    using o c p A B C
      readArray_absent_or_present [where grp = h5_group_example and props = io_props_present
        and env = io_env_example and N = 3 and offset = 2 and m = memory_example
        and d = h5_dataset_example]
    by blast
qed

end
